theory Spec2Isabelle
  imports Main "HOL-Library.Sublist" "HOL-Library.Word"
begin

section \<open>Run-time failures\<close>

text \<open>
  The Go run-time panics that the modelled functions can raise.  A function that can panic
  returns a sum: \<open>Inl\<close> carries the panic, \<open>Inr\<close> the value the Go function returns.
\<close>

datatype panic = NilPointerDereference | IntegerDivideByZero | SliceBoundsOutOfRange

section \<open>The identifier namer: \<open>sortName\<close> (pkg/db/service.go)\<close>

subsection \<open>Library functions of package \<open>strings\<close>\<close>

text \<open>
  A Go string is a byte string and \<open>len\<close> counts bytes, so a string is a \<open>char list\<close> here
  (an Isabelle \<open>char\<close> is one byte).  \<open>strings.TrimSpace\<close> removes leading and trailing
  white space as Unicode defines it; \<open>spaceRunes\<close> lists the UTF-8 encodings of the code
  points for which \<open>unicode.IsSpace\<close> holds: the six ASCII ones, U+0085, U+00A0, U+1680,
  U+2000 to U+200A, U+2028, U+2029, U+202F, U+205F and U+3000.
\<close>

definition spaceRunes :: "string list" where
  "spaceRunes =
     [[CHR 0x09], [CHR 0x0A], [CHR 0x0B], [CHR 0x0C], [CHR 0x0D], [CHR 0x20],
      [CHR 0xC2, CHR 0x85], [CHR 0xC2, CHR 0xA0], [CHR 0xE1, CHR 0x9A, CHR 0x80]] @
     map (\<lambda>b. [CHR 0xE2, CHR 0x80, b])
       [CHR 0x80, CHR 0x81, CHR 0x82, CHR 0x83, CHR 0x84, CHR 0x85, CHR 0x86, CHR 0x87,
        CHR 0x88, CHR 0x89, CHR 0x8A, CHR 0xA8, CHR 0xA9, CHR 0xAF] @
     [[CHR 0xE2, CHR 0x81, CHR 0x9F], [CHR 0xE3, CHR 0x80, CHR 0x80]]"

text \<open>The byte width of the rune of \<open>runes\<close> that \<open>s\<close> starts with, 0 when there is none.\<close>

definition frontWidth :: "string list \<Rightarrow> string \<Rightarrow> nat" where
  "frontWidth runes s =
     (case find (\<lambda>r. r \<noteq> [] \<and> take (length r) s = r) runes of
        None \<Rightarrow> 0
      | Some r \<Rightarrow> length r)"

lemma frontWidth_le: "frontWidth runes s \<le> length s"
proof (cases "find (\<lambda>r. r \<noteq> [] \<and> take (length r) s = r) runes")
  case None
  then show ?thesis by (simp add: frontWidth_def)
next
  case (Some r)
  then have "take (length r) s = r"
    by (auto simp: find_Some_iff)
  then have "length r \<le> length s"
    by (metis length_take min.cobounded1)
  with Some show ?thesis by (simp add: frontWidth_def)
qed

function trimFront :: "string list \<Rightarrow> string \<Rightarrow> string" where
  "trimFront runes s =
     (if frontWidth runes s = 0 then s else trimFront runes (drop (frontWidth runes s) s))"
  by pat_completeness auto
termination
proof (relation "measure (\<lambda>(runes, s). length s)")
  show "wf (measure (\<lambda>(runes, s). length s))" by simp
next
  fix runes :: "string list" and s :: string
  assume "frontWidth runes s \<noteq> 0"
  moreover have "frontWidth runes s \<le> length s" by (rule frontWidth_le)
  ultimately show "((runes, drop (frontWidth runes s) s), (runes, s)) \<in> measure (\<lambda>(runes, s). length s)"
    by simp
qed

declare trimFront.simps [simp del]

definition TrimSpace :: "string \<Rightarrow> string" where
  "TrimSpace s = rev (trimFront (map rev spaceRunes) (rev (trimFront spaceRunes s)))"

text \<open>\<open>strings.Split(s, "_")\<close>: the segments between the separators, one more than there
  are separators.\<close>

fun Split :: "string \<Rightarrow> string list" where
  "Split [] = [[]]"
| "Split (c # cs) =
     (if c = CHR ''_'' then [] # Split cs
      else (case Split cs of [] \<Rightarrow> [[c]] | seg # segs \<Rightarrow> (c # seg) # segs))"

subsection \<open>\<open>sortName\<close>\<close>

text \<open>Go's integer division truncates toward zero.\<close>

definition quot :: "int \<Rightarrow> int \<Rightarrow> int" where
  "quot a b = sgn a * sgn b * (\<bar>a\<bar> div \<bar>b\<bar>)"

text \<open>The slice expression \<open>s[0:hi]\<close>, which panics unless \<open>0 \<le> hi \<le> len(s)\<close>.\<close>

definition slice0 :: "string \<Rightarrow> int \<Rightarrow> panic + string" where
  "slice0 s hi =
     (if hi < 0 \<or> int (length s) < hi then Inl SliceBoundsOutOfRange
      else Inr (take (nat hi) s))"

text \<open>
  The loop \<open>for i, s := range ss\<close> of \<open>sortName\<close>, on the segments not yet visited and the
  result built so far.  \<open>i < len(ss)-1\<close> holds exactly when a segment follows \<open>s\<close>.
\<close>

fun sortLoop :: "int \<Rightarrow> int \<Rightarrow> string list \<Rightarrow> string \<Rightarrow> panic + string" where
  "sortLoop sz rSize [] res = Inr res"
| "sortLoop sz rSize (s # ss) res =
     (if int (length res) \<ge> sz then Inr res
      else if ss \<noteq> [] then
        (if rSize \<ge> int (length s) - 1 then sortLoop sz rSize ss (res @ s @ ''_'')
         else (case slice0 s (rSize - 1) of
                 Inl p \<Rightarrow> Inl p
               | Inr pre \<Rightarrow> sortLoop sz rSize ss (res @ pre @ ''_'')))
      else
        (if rSize \<ge> int (length s) then sortLoop sz rSize ss (res @ s)
         else (case slice0 s rSize of
                 Inl p \<Rightarrow> Inl p
               | Inr pre \<Rightarrow> sortLoop sz rSize ss (res @ pre))))"

text \<open>
  \<open>sortName(name, size)\<close>.  The division \<open>size / len(names)\<close> panics when every segment is
  empty or white space; Go's \<open>int\<close> is modelled by \<open>int\<close>, as none of the operations
  here can leave the 64-bit range.
\<close>

definition sortName :: "string \<Rightarrow> int \<Rightarrow> panic + string" where
  "sortName name0 sz =
     (let name = TrimSpace name0 in
      if int (length name) \<le> sz then Inr name
      else if CHR ''_'' \<in> set name then
        (let ss = Split name;
             names = map TrimSpace (filter (\<lambda>s. TrimSpace s \<noteq> []) ss)
         in if length names = 0 then Inl IntegerDivideByZero
            else sortLoop sz (quot sz (int (length names))) ss [])
      else slice0 name sz)"


section \<open>Values of type \<open>interface{}\<close>\<close>

text \<open>
  A value held in a row of a query result or of an import, as far as the code tells values
  apart by their dynamic type: nil, a \<open>time.Time\<close>, a \<open>float64\<close>, a \<open>float32\<close>, an
  \<open>int64\<close>, an \<open>int\<close>, a string, or a value of another type.  Times, floating-point numbers
  and the other values are kept abstract (\<open>'t\<close>, \<open>'f\<close>, \<open>'o\<close>); what the code asks of them
  is a parameter.
\<close>

datatype ('t, 'f, 'o) any =
    NilValue
  | Time 't
  | Float64 'f
  | Float32 'f
  | Int64 "64 word"
  | GoInt int
  | String string
  | Other 'o

text \<open>
  The functions the code calls on these values: \<open>time.Time.IsZero\<close>, \<open>util.GetTimeTime\<close>
  (the timestamp of a time, an \<open>int64\<close>), \<open>fmt.Sprintf("%f", v)\<close> for a floating-point number
  of the given bit size, the conversion \<open>int(v)\<close> of a \<open>float64\<close>, \<open>fmt.Sprint\<close> and the
  name of the dynamic type for a value of another type, and \<open>strings.ToLower\<close>.
\<close>

record ('t, 'f, 'o) Runtime =
  IsZero :: "'t \<Rightarrow> bool"
  GetTimeTime :: "'t \<Rightarrow> 64 word"
  Sprintf_f :: "nat \<Rightarrow> 'f \<Rightarrow> string"
  ToInt :: "'f \<Rightarrow> int"
  Sprint :: "'o \<Rightarrow> string"
  TypeName :: "'o \<Rightarrow> string"
  ToLower :: "string \<Rightarrow> string"

text \<open>\<open>fmt.Sprintf("%d", v)\<close>: the decimal digits of the signed value.\<close>

function showNat :: "nat \<Rightarrow> string" where
  "showNat n =
     (if n < 10 then [char_of (48 + n)] else showNat (n div 10) @ [char_of (48 + n mod 10)])"
  by pat_completeness auto
termination
  by (relation "measure id") auto

declare showNat.simps [simp del]

definition showInt :: "int \<Rightarrow> string" where
  "showInt i = (if i < 0 then ''-'' @ showNat (nat (- i)) else showNat (nat i))"

definition Sprintf_d :: "64 word \<Rightarrow> string" where
  "Sprintf_d v = showInt (sint v)"

text \<open>
  An instance for examples: a time is its timestamp in milliseconds and the zero time is
  January 1 of year 1, a floating-point number is a whole number, a value of another type is
  given by the text it prints as, and only ASCII letters are lowered.
\<close>

definition asciiLower :: "char \<Rightarrow> char" where
  "asciiLower c =
     (if (65::nat) \<le> of_char c \<and> of_char c \<le> (90::nat) then char_of (of_char c + (32::nat)) else c)"

definition exampleRuntime :: "(int, int, string) Runtime" where
  "exampleRuntime =
     \<lparr>IsZero = (\<lambda>t. t = - 62135596800000),
      GetTimeTime = (\<lambda>t. word_of_int t),
      Sprintf_f = (\<lambda>bits f. showInt f @ ''.000000''),
      ToInt = (\<lambda>f. f),
      Sprint = (\<lambda>v. v),
      TypeName = (\<lambda>v. ''[]uint8''),
      ToLower = map asciiLower\<rparr>"

section \<open>The import task (pkg/db/task/import.go)\<close>

subsection \<open>Data and collaborators\<close>

text \<open>
  How a call ends when it does not end well: with an error value that it returns, or with a
  panic.  Either carries the text that \<open>fmt.Sprint\<close> prints for it.
\<close>

datatype fault = Err string | Pan string

fun message :: "fault \<Rightarrow> string" where
  "message (Err text) = text"
| "message (Pan text) = text"

text \<open>
  The task.  Of a column of \<open>ColumnList\<close> the task reads the name only; a strategy row is a
  map from column names (and \<open>_$importCount\<close>) to values.  \<open>GenerateParam\<close> and \<open>Service\<close> are
  part of the database collaborator below.  The counters are Go \<open>int\<close>s, modelled by \<open>int\<close>:
  they count rows and do not reach the 64-bit range.  Another goroutine may set \<open>IsStop\<close>
  while the worker runs; a run here reads the flag of its own task state, which no step of
  the run changes.
\<close>

record ('t, 'f, 'o) ImportTask =
  Database :: string
  Table :: string
  ColumnList :: "string list"
  Key :: string
  ImportType :: string
  StrategyDataList :: "(string \<rightharpoonup> ('t, 'f, 'o) any) list"
  BatchNumber :: int
  DataCount :: int
  ReadyDataCount :: int
  SuccessCount :: int
  ErrorCount :: int
  IsEnd :: bool
  StartTime :: 't
  EndTime :: 't
  Error :: string
  UseTime :: "64 word"
  IsStop :: bool

text \<open>
  The script engine: \<open>javascript.GetContext()\<close> (the entries in the order the range loop
  visits them), \<open>goja.New()\<close>, \<open>vm.Set\<close>, and \<open>vm.RunString\<close> followed by \<open>Export\<close>.  The
  state of the engine is passed along.
\<close>

record ('t, 'f, 'o, 'vm) ScriptEngine =
  javascript_GetContext :: "(string \<times> ('t, 'f, 'o) any) list"
  goja_New :: 'vm
  vm_Set :: "'vm \<Rightarrow> string \<Rightarrow> ('t, 'f, 'o) any \<Rightarrow> fault + 'vm"
  vm_RunString :: "'vm \<Rightarrow> string \<Rightarrow> fault + ('t, 'f, 'o) any \<times> 'vm"

text \<open>
  The database: \<open>db.DataListInsertSql\<close> with the task's \<open>GenerateParam\<close>, which turns rows
  into statements \<open>'s\<close>, and \<open>Service.Execs\<close>, which runs them on the database \<open>'db\<close>.
\<close>

record ('t, 'f, 'o, 's, 'db) DatabaseService =
  DataListInsertSql ::
    "string \<Rightarrow> string \<Rightarrow> string list \<Rightarrow> (string \<rightharpoonup> ('t, 'f, 'o) any) list \<Rightarrow> fault + 's"
  Execs :: "'db \<Rightarrow> 's \<Rightarrow> fault option \<times> 'db"

text \<open>The name of the dynamic type of a value, as a failed type assertion prints it.\<close>

fun typeName :: "('t, 'f, 'o) Runtime \<Rightarrow> ('t, 'f, 'o) any \<Rightarrow> string" where
  "typeName rt NilValue = ''nil''"
| "typeName rt (Time v) = ''time.Time''"
| "typeName rt (Float64 v) = ''float64''"
| "typeName rt (Float32 v) = ''float32''"
| "typeName rt (Int64 v) = ''int64''"
| "typeName rt (GoInt v) = ''int''"
| "typeName rt (String v) = ''string''"
| "typeName rt (Other v) = TypeName rt v"

definition interfaceConversion :: "('t, 'f, 'o) Runtime \<Rightarrow> ('t, 'f, 'o) any \<Rightarrow> string \<Rightarrow> fault" where
  "interfaceConversion rt v wanted =
     Pan (''interface conversion: interface {} is '' @ typeName rt v @ '', not '' @ wanted)"

subsection \<open>\<open>doImportData\<close>\<close>

definition doImportData ::
  "('t, 'f, 'o, 's, 'db) DatabaseService \<Rightarrow> string \<Rightarrow> string \<Rightarrow> string list \<Rightarrow>
   (string \<rightharpoonup> ('t, 'f, 'o) any) list \<Rightarrow> 'db \<Rightarrow> fault option \<times> 'db" where
  "doImportData svc database table columnList dataList db =
     (if length dataList = 0 then (None, db)
      else (case DataListInsertSql svc database table columnList dataList of
              Inl f \<Rightarrow> (Some f, db)
            | Inr sqlList \<Rightarrow> Execs svc db sqlList))"

text \<open>
  \<open>err = this_.doImportData(...)\<close> with the counting that follows it: a returned error is
  counted into \<open>ErrorCount\<close>, a success into \<open>SuccessCount\<close>; a panic leaves before either.
\<close>

definition importBatch ::
  "('t, 'f, 'o, 's, 'db) DatabaseService \<Rightarrow> string \<Rightarrow> string \<Rightarrow> string list \<Rightarrow>
   (string \<rightharpoonup> ('t, 'f, 'o) any) list \<Rightarrow> ('t, 'f, 'o) ImportTask \<times> 'db \<Rightarrow>
   fault option \<times> ('t, 'f, 'o) ImportTask \<times> 'db" where
  "importBatch svc database table columnList dataList st =
     (case st of (task, db) \<Rightarrow>
      (case doImportData svc database table columnList dataList db of
         (Some (Err e), db') \<Rightarrow>
           (Some (Err e), task\<lparr>ErrorCount := ErrorCount task + int (length dataList)\<rparr>, db')
       | (Some (Pan p), db') \<Rightarrow> (Some (Pan p), task, db')
       | (None, db') \<Rightarrow>
           (None, task\<lparr>SuccessCount := SuccessCount task + int (length dataList)\<rparr>, db')))"

subsection \<open>\<open>doStrategyData\<close>\<close>

text \<open>\<open>for key, value := range scriptContext { err = vm.Set(key, value) ... }\<close>\<close>

fun setContext ::
  "('t, 'f, 'o, 'vm) ScriptEngine \<Rightarrow> (string \<times> ('t, 'f, 'o) any) list \<Rightarrow> 'vm \<Rightarrow> fault + 'vm" where
  "setContext eng [] vm = Inr vm"
| "setContext eng ((key, v) # rest) vm =
     (case vm_Set eng vm key v of Inl f \<Rightarrow> Inl f | Inr vm' \<Rightarrow> setContext eng rest vm')"

text \<open>
  The loop over the columns for one row.  \<open>Inl r\<close>: \<open>doStrategyData\<close> returns \<open>r\<close> (the task was
  stopped, or a script or \<open>vm.Set\<close> failed); \<open>Inr\<close>: the row and the engine after the last
  column.  A configured value that is a non-empty string is run as a script; any value is
  stored in the row and set in the engine under the column's name.
\<close>

fun doStrategyData_columns ::
  "('t, 'f, 'o, 'vm) ScriptEngine \<Rightarrow> bool \<Rightarrow> (string \<rightharpoonup> ('t, 'f, 'o) any) \<Rightarrow> string list \<Rightarrow>
   'vm \<Rightarrow> (string \<rightharpoonup> ('t, 'f, 'o) any) \<Rightarrow> fault option + (string \<rightharpoonup> ('t, 'f, 'o) any) \<times> 'vm" where
  "doStrategyData_columns eng isStop importData [] vm data = Inr (data, vm)"
| "doStrategyData_columns eng isStop importData (column # rest) vm data =
     (if isStop then Inl None
      else (case importData column of
              None \<Rightarrow> doStrategyData_columns eng isStop importData rest vm data
            | Some v \<Rightarrow>
               (case (case v of
                        String valueString \<Rightarrow>
                          if valueString \<noteq> [] then
                            (case vm_RunString eng vm valueString of
                               Inl f \<Rightarrow> Inl (Some f)
                             | Inr scriptValue \<Rightarrow> Inr scriptValue)
                          else Inr (v, vm)
                      | _ \<Rightarrow> Inr (v, vm)) of
                  Inl r \<Rightarrow> Inl r
                | Inr (v', vm') \<Rightarrow>
                   (case vm_Set eng vm' column v' of
                      Inl f \<Rightarrow> Inl (Some f)
                    | Inr vm'' \<Rightarrow>
                        doStrategyData_columns eng isStop importData rest vm'' (data(column \<mapsto> v'))))))"

text \<open>
  The loop \<open>for i := 0; i < importCount; i++\<close>, on the number of rows still to make, the
  index \<open>i\<close>, the engine, the rows gathered since the last batch, the task and the database.
  \<open>Inl r\<close>: \<open>doStrategyData\<close> returns \<open>r\<close>; \<open>Inr dataList\<close>: the loop is through, with these
  rows still to be written.
\<close>

fun doStrategyData_rows ::
  "('t, 'f, 'o, 'vm) ScriptEngine \<Rightarrow> ('t, 'f, 'o, 's, 'db) DatabaseService \<Rightarrow>
   string \<Rightarrow> string \<Rightarrow> string list \<Rightarrow> (string \<rightharpoonup> ('t, 'f, 'o) any) \<Rightarrow> int \<Rightarrow>
   nat \<Rightarrow> int \<Rightarrow> 'vm \<Rightarrow> (string \<rightharpoonup> ('t, 'f, 'o) any) list \<Rightarrow> ('t, 'f, 'o) ImportTask \<times> 'db \<Rightarrow>
   (fault option + (string \<rightharpoonup> ('t, 'f, 'o) any) list) \<times> ('t, 'f, 'o) ImportTask \<times> 'db" where
  "doStrategyData_rows eng svc database table columnList importData batchNumber 0 i vm dataList st =
     (Inr dataList, st)"
| "doStrategyData_rows eng svc database table columnList importData batchNumber (Suc n) i vm dataList st =
     (case st of (task, db) \<Rightarrow>
      (case vm_Set eng vm ''_$index'' (GoInt i) of
         Inl f \<Rightarrow> (Inl (Some f), task, db)
       | Inr vm1 \<Rightarrow>
          (case doStrategyData_columns eng (IsStop task) importData columnList vm1 Map.empty of
             Inl r \<Rightarrow> (Inl r, task, db)
           | Inr (data, vm2) \<Rightarrow>
              (let task1 = task\<lparr>ReadyDataCount := ReadyDataCount task + 1\<rparr>;
                   dataList1 = dataList @ [data]
               in if int (length dataList1) \<ge> batchNumber then
                    (if IsStop task1 then (Inl None, task1, db)
                     else (case importBatch svc database table columnList dataList1 (task1, db) of
                             (Some f, st') \<Rightarrow> (Inl (Some f), st')
                           | (None, st') \<Rightarrow>
                               doStrategyData_rows eng svc database table columnList importData
                                 batchNumber n (i + 1) vm2 [] st'))
                  else doStrategyData_rows eng svc database table columnList importData
                         batchNumber n (i + 1) vm2 dataList1 (task1, db)))))"

definition doStrategyData ::
  "('t, 'f, 'o) Runtime \<Rightarrow> ('t, 'f, 'o, 'vm) ScriptEngine \<Rightarrow> ('t, 'f, 'o, 's, 'db) DatabaseService \<Rightarrow>
   string \<Rightarrow> string \<Rightarrow> string list \<Rightarrow> (string \<rightharpoonup> ('t, 'f, 'o) any) \<Rightarrow>
   ('t, 'f, 'o) ImportTask \<times> 'db \<Rightarrow> fault option \<times> ('t, 'f, 'o) ImportTask \<times> 'db" where
  "doStrategyData rt eng svc database table columnList importData st =
     (case st of (task, db) \<Rightarrow>
      (case importData ''_$importCount'' of
         Some (GoInt importCount) \<Rightarrow>
           if importCount \<le> 0 then (None, task, db)
           else if IsStop task then (None, task, db)
           else
             (let batchNumber = (if BatchNumber task \<le> 0 then 10 else BatchNumber task)
              in case setContext eng (javascript_GetContext eng) (goja_New eng) of
                   Inl f \<Rightarrow> (Some f, task, db)
                 | Inr vm \<Rightarrow>
                    (case doStrategyData_rows eng svc database table columnList importData
                            batchNumber (nat importCount) 0 vm [] (task, db) of
                       (Inl r, st') \<Rightarrow> (r, st')
                     | (Inr dataList, st') \<Rightarrow>
                         importBatch svc database table columnList dataList st'))
       | Some v \<Rightarrow> (Some (interfaceConversion rt v ''int''), task, db)
       | None \<Rightarrow> (Some (interfaceConversion rt NilValue ''int''), task, db)))"

subsection \<open>\<open>doStrategy\<close>\<close>

text \<open>
  The first loop reads the requested count of every strategy row, writes it back as an \<open>int\<close>
  that is not negative, and adds it to \<open>DataCount\<close>.  A count that is neither nil nor a
  \<open>float64\<close> makes the type assertion panic, with the rows before it already counted.
\<close>

fun doStrategy_count ::
  "('t, 'f, 'o) Runtime \<Rightarrow> (string \<rightharpoonup> ('t, 'f, 'o) any) list \<Rightarrow> int \<Rightarrow>
   fault option \<times> (string \<rightharpoonup> ('t, 'f, 'o) any) list \<times> int" where
  "doStrategy_count rt [] dataCount = (None, [], dataCount)"
| "doStrategy_count rt (importData # rest) dataCount =
     (case (case importData ''_$importCount'' of
              None \<Rightarrow> Inr 0
            | Some NilValue \<Rightarrow> Inr 0
            | Some (Float64 v) \<Rightarrow> Inr (ToInt rt v)
            | Some v \<Rightarrow> Inl (interfaceConversion rt v ''float64'')) of
        Inl f \<Rightarrow> (Some f, importData # rest, dataCount)
      | Inr n \<Rightarrow>
         (let importCount = (if n \<le> 0 then 0 else n);
              importData' = importData(''_$importCount'' \<mapsto> GoInt importCount)
          in case doStrategy_count rt rest (dataCount + importCount) of
               (r, rest', dataCount') \<Rightarrow> (r, importData' # rest', dataCount')))"

text \<open>The second loop runs the strategy rows in turn, until the task is stopped or a row
  fails.\<close>

fun doStrategy_run ::
  "('t, 'f, 'o) Runtime \<Rightarrow> ('t, 'f, 'o, 'vm) ScriptEngine \<Rightarrow> ('t, 'f, 'o, 's, 'db) DatabaseService \<Rightarrow>
   (string \<rightharpoonup> ('t, 'f, 'o) any) list \<Rightarrow> ('t, 'f, 'o) ImportTask \<times> 'db \<Rightarrow>
   fault option \<times> ('t, 'f, 'o) ImportTask \<times> 'db" where
  "doStrategy_run rt eng svc [] st = (None, st)"
| "doStrategy_run rt eng svc (importData # rest) st =
     (case st of (task, db) \<Rightarrow>
      if IsStop task then (None, task, db)
      else (case doStrategyData rt eng svc (Database task) (Table task) (ImportTask.ColumnList task)
                   importData (task, db) of
              (Some f, st') \<Rightarrow> (Some f, st')
            | (None, st') \<Rightarrow> doStrategy_run rt eng svc rest st'))"

definition doStrategy ::
  "('t, 'f, 'o) Runtime \<Rightarrow> ('t, 'f, 'o, 'vm) ScriptEngine \<Rightarrow> ('t, 'f, 'o, 's, 'db) DatabaseService \<Rightarrow>
   ('t, 'f, 'o) ImportTask \<times> 'db \<Rightarrow> fault option \<times> ('t, 'f, 'o) ImportTask \<times> 'db" where
  "doStrategy rt eng svc st =
     (case st of (task, db) \<Rightarrow>
      (case doStrategy_count rt (StrategyDataList task) (DataCount task) of
         (r, strategyDataList, dataCount) \<Rightarrow>
           (let task' = task\<lparr>StrategyDataList := strategyDataList, DataCount := dataCount\<rparr>
            in case r of
                 Some f \<Rightarrow> (Some f, task', db)
               | None \<Rightarrow> doStrategy_run rt eng svc strategyDataList (task', db))))"

subsection \<open>\<open>Start\<close>, \<open>Stop\<close> and the task cache\<close>

text \<open>
  \<open>Start\<close>, with the two readings of the clock as arguments.  A returned error is raised as a
  panic; the deferred function recovers any panic into \<open>Error\<close> and then does the
  bookkeeping, whatever happened.
\<close>

definition Start ::
  "('t, 'f, 'o) Runtime \<Rightarrow> ('t, 'f, 'o, 'vm) ScriptEngine \<Rightarrow> ('t, 'f, 'o, 's, 'db) DatabaseService \<Rightarrow>
   't \<Rightarrow> 't \<Rightarrow> ('t, 'f, 'o) ImportTask \<times> 'db \<Rightarrow> ('t, 'f, 'o) ImportTask \<times> 'db" where
  "Start rt eng svc now1 now2 st =
     (case st of (task, db) \<Rightarrow>
      (let task0 = task\<lparr>StartTime := now1\<rparr>
       in case (if ImportType task0 = ''strategy'' then doStrategy rt eng svc (task0, db)
                else (None, task0, db)) of
            (r, task1, db') \<Rightarrow>
              (let task2 = (case r of Some f \<Rightarrow> task1\<lparr>Error := message f\<rparr> | None \<Rightarrow> task1);
                   task3 = task2\<lparr>EndTime := now2\<rparr>;
                   task4 = task3\<lparr>IsEnd := True\<rparr>
               in (task4\<lparr>UseTime := GetTimeTime rt (EndTime task4) - GetTimeTime rt (StartTime task4)\<rparr>,
                   db'))))"

definition Stop :: "('t, 'f, 'o) ImportTask \<Rightarrow> ('t, 'f, 'o) ImportTask" where
  "Stop task = task\<lparr>IsStop := True\<rparr>"

text \<open>
  \<open>ImportTaskCache\<close> maps a key to its task.  \<open>StartImportTask\<close> registers the task; the
  goroutine it starts then runs \<open>Start\<close> on the registered task.  \<open>StopImportTask\<close> looks the
  task up and calls \<open>task.Start()\<close> on it.
\<close>

definition StartImportTask ::
  "('t, 'f, 'o) ImportTask \<Rightarrow> (string \<rightharpoonup> ('t, 'f, 'o) ImportTask) \<Rightarrow> (string \<rightharpoonup> ('t, 'f, 'o) ImportTask)" where
  "StartImportTask task ImportTaskCache = ImportTaskCache(Key task \<mapsto> task)"

definition GetImportTask ::
  "string \<Rightarrow> (string \<rightharpoonup> ('t, 'f, 'o) ImportTask) \<Rightarrow> ('t, 'f, 'o) ImportTask option" where
  "GetImportTask taskKey ImportTaskCache = ImportTaskCache taskKey"

definition StopImportTask ::
  "('t, 'f, 'o) Runtime \<Rightarrow> ('t, 'f, 'o, 'vm) ScriptEngine \<Rightarrow> ('t, 'f, 'o, 's, 'db) DatabaseService \<Rightarrow>
   't \<Rightarrow> 't \<Rightarrow> string \<Rightarrow> (string \<rightharpoonup> ('t, 'f, 'o) ImportTask) \<times> 'db \<Rightarrow>
   ('t, 'f, 'o) ImportTask option \<times> (string \<rightharpoonup> ('t, 'f, 'o) ImportTask) \<times> 'db" where
  "StopImportTask rt eng svc now1 now2 taskKey world =
     (case world of (ImportTaskCache, db) \<Rightarrow>
      (case ImportTaskCache taskKey of
         None \<Rightarrow> (None, ImportTaskCache, db)
       | Some task \<Rightarrow>
          (case Start rt eng svc now1 now2 (task, db) of
             (task', db') \<Rightarrow> (Some task', ImportTaskCache(taskKey \<mapsto> task'), db'))))"

definition CleanImportTask ::
  "string \<Rightarrow> (string \<rightharpoonup> ('t, 'f, 'o) ImportTask) \<Rightarrow>
   ('t, 'f, 'o) ImportTask option \<times> (string \<rightharpoonup> ('t, 'f, 'o) ImportTask)" where
  "CleanImportTask taskKey ImportTaskCache =
     (case ImportTaskCache taskKey of
        None \<Rightarrow> (None, ImportTaskCache)
      | Some task \<Rightarrow> (Some task, ImportTaskCache(taskKey := None)))"

subsection \<open>Collaborators for examples\<close>

text \<open>
  A database that keeps what it is given: the statements of a batch are its rows, and the
  database is the list of the batches that were run.
\<close>

definition logService ::
  "('t, 'f, 'o, (string \<rightharpoonup> ('t, 'f, 'o) any) list, (string \<rightharpoonup> ('t, 'f, 'o) any) list list) DatabaseService" where
  "logService =
     \<lparr>DataListInsertSql = (\<lambda>database table columnList dataList. Inr dataList),
      Execs = (\<lambda>db sqlList. (None, db @ [sqlList]))\<rparr>"

text \<open>
  A stand-in for the script engine, on four forms of script.  The engine is the list of
  the global variables that were set, the latest first.  The script \<open>this.x\<close> reads the
  global \<open>x\<close> and yields nil when it was never set; the script \<open>unset.x\<close> stands for a
  script that throws once the global \<open>x\<close> was set, and yields nil before; the script
  \<open>fail()\<close> and the name of a global that was never set end with a reference error; the
  name of a global that was set yields its value.  An \<open>int\<close> comes back as an \<open>int64\<close>, as
  \<open>Export\<close> returns it.
\<close>

fun exported :: "('t, 'f, 'o) any \<Rightarrow> ('t, 'f, 'o) any" where
  "exported (GoInt i) = Int64 (word_of_int i)"
| "exported v = v"

definition exampleEngine :: "(int, int, string, (string \<times> (int, int, string) any) list) ScriptEngine" where
  "exampleEngine =
     \<lparr>javascript_GetContext = [],
      goja_New = [],
      vm_Set = (\<lambda>vm name v. Inr ((name, v) # vm)),
      vm_RunString = (\<lambda>vm script.
        if take 5 script = ''this.'' then
          Inr (exported (case map_of vm (drop 5 script) of None \<Rightarrow> NilValue | Some v \<Rightarrow> v), vm)
        else if take 6 script = ''unset.'' then
          (case map_of vm (drop 6 script) of
             None \<Rightarrow> Inr (NilValue, vm)
           | Some v \<Rightarrow> Inl (Err (''Error: '' @ drop 6 script @ '' is set'')))
        else (case map_of vm script of
                None \<Rightarrow> Inl (Err (''ReferenceError: '' @ script @ '' is not defined''))
              | Some v \<Rightarrow> Inr (exported v, vm)))\<rparr>"

definition newTask ::
  "string list \<Rightarrow> (string \<rightharpoonup> (int, int, string) any) list \<Rightarrow> int \<Rightarrow> (int, int, string) ImportTask" where
  "newTask columnList strategyDataList batchNumber =
     \<lparr>Database = ''shop'', Table = ''orders'', ColumnList = columnList, Key = ''task-1'',
      ImportType = ''strategy'', StrategyDataList = strategyDataList, BatchNumber = batchNumber,
      DataCount = 0, ReadyDataCount = 0, SuccessCount = 0, ErrorCount = 0, IsEnd = False,
      StartTime = 0, EndTime = 0, Error = [], UseTime = 0, IsStop = False\<rparr>"

text \<open>Three rows whose column \<open>a\<close> is the index and whose column \<open>b\<close> is the script \<open>a\<close>, in
  batches of two.\<close>

definition derivedTask :: "(int, int, string) ImportTask" where
  "derivedTask =
     newTask [''a'', ''b'']
       [[''_$importCount'' \<mapsto> Float64 3, ''a'' \<mapsto> String ''_$index'', ''b'' \<mapsto> String ''a'']] 2"



text \<open>A strategy row whose count is a string.\<close>

definition badCountTask :: "(int, int, string) ImportTask" where
  "badCountTask = newTask [''a''] [[''_$importCount'' \<mapsto> String ''3'', ''a'' \<mapsto> Float64 5]] 10"

subsection \<open>The rows of a strategy row\<close>


text \<open>What a run may change in a task: the strategy rows and the four counters.\<close>

definition frame :: "('t, 'f, 'o) ImportTask \<Rightarrow> ('t, 'f, 'o) ImportTask \<Rightarrow> bool" where
  "frame task task' \<longleftrightarrow>
     task' = task\<lparr>StrategyDataList := StrategyDataList task', DataCount := DataCount task',
                  ReadyDataCount := ReadyDataCount task', SuccessCount := SuccessCount task',
                  ErrorCount := ErrorCount task'\<rparr>"



section \<open>The schema diff compiler: \<open>TableUpdateSql\<close> (pkg/db/service.go)\<close>

subsection \<open>Data\<close>

text \<open>
  \<open>dialect.ColumnModel\<close> and \<open>dialect.IndexModel\<close> are declared by the dialect library.
  \<open>TableUpdateSql\<close> reads \<open>ColumnName\<close> and \<open>PrimaryKey\<close>, writes
  \<open>ColumnAfterColumn\<close>, and compares the four fields of an index; the other column
  attributes are those the data model of the specification lists (type, nullability,
  default, comment).
\<close>

record ColumnModel =
  ColumnName :: string
  ColumnComment :: string
  ColumnDataType :: string
  ColumnNotNull :: bool
  ColumnDefault :: string
  PrimaryKey :: bool
  ColumnAfterColumn :: string

record IndexModel =
  IndexName :: string
  IndexType :: string
  IndexComment :: string
  ColumnNames :: "string list"

text \<open>
  \<open>UpdateTableColumn\<close> and \<open>UpdateTableIndex\<close> embed a pointer to the new model and hold a
  pointer to the old one; either can be nil.  The entries of the two lists are taken to be
  distinct objects, none shared with an old model, as decoding the request produces them.
\<close>

record UpdateTableColumn =
  ColumnModel :: "ColumnModel option"
  OldColumn :: "ColumnModel option"
  Deleted :: bool

record UpdateTableIndex =
  IndexModel :: "IndexModel option"
  OldIndex :: "IndexModel option"
  Deleted :: bool

record UpdateTableParam =
  TableComment :: string
  OldTableComment :: string
  ColumnList :: "UpdateTableColumn list"
  IndexList :: "UpdateTableIndex list"

subsection \<open>The dialect adapter\<close>

text \<open>
  The dialect that \<open>GetTargetDialect(param)\<close> selects, with \<open>param.ParamModel\<close> already
  passed: seven functions from the owner name, the table name and the operation's arguments
  to an error or a list of statements.  The compiler is generic in the type \<open>'e\<close> of the
  errors and the type \<open>'s\<close> of the statements.
\<close>

record ('e, 's) Dialect =
  ColumnDeleteSql :: "string \<Rightarrow> string \<Rightarrow> string \<Rightarrow> 'e + 's list"
  ColumnAddSql :: "string \<Rightarrow> string \<Rightarrow> ColumnModel \<Rightarrow> 'e + 's list"
  ColumnUpdateSql :: "string \<Rightarrow> string \<Rightarrow> ColumnModel \<Rightarrow> ColumnModel \<Rightarrow> 'e + 's list"
  PrimaryKeyDeleteSql :: "string \<Rightarrow> string \<Rightarrow> 'e + 's list"
  PrimaryKeyAddSql :: "string \<Rightarrow> string \<Rightarrow> string list \<Rightarrow> 'e + 's list"
  IndexDeleteSql :: "string \<Rightarrow> string \<Rightarrow> string \<Rightarrow> 'e + 's list"
  IndexAddSql :: "string \<Rightarrow> string \<Rightarrow> IndexModel option \<Rightarrow> 'e + 's list"

text \<open>\<open>TableUpdateSql\<close> ends with a panic, with the error of a dialect call, or with the
  statement list.\<close>

datatype 'e failure = Panic panic | DialectError 'e

text \<open>
  \<open>sqlList_, err = ...; if err != nil { return }; sqlList = append(sqlList, sqlList_...)\<close>
\<close>

definition emit :: "'e + 's list \<Rightarrow> 's list \<Rightarrow> 'e failure + 's list" where
  "emit r sqlList = (case r of Inl err \<Rightarrow> Inl (DialectError err) | Inr sqlList_ \<Rightarrow> Inr (sqlList @ sqlList_))"

text \<open>\<open>dialect.StringsIndex\<close>: the index of the first occurrence, or -1.\<close>

fun StringsIndex :: "string list \<Rightarrow> string \<Rightarrow> int" where
  "StringsIndex [] val = - 1"
| "StringsIndex (x # xs) val =
     (if x = val then 0
      else (let i = StringsIndex xs val in if i < 0 then - 1 else i + 1))"

text \<open>\<open>strings.Join(elems, sep)\<close>\<close>

fun Join :: "string list \<Rightarrow> string \<Rightarrow> string" where
  "Join [] sep = []"
| "Join [x] sep = x"
| "Join (x # y # ys) sep = x @ sep @ Join (y # ys) sep"

subsection \<open>The compiler\<close>

text \<open>
  The first loop links the columns: every column but the first gets the name of the column
  before it as its \<open>ColumnAfterColumn\<close>.  Reading \<open>last.ColumnName\<close> or writing
  \<open>one.ColumnAfterColumn\<close> through a nil embedded pointer panics.
\<close>

fun linkColumns :: "UpdateTableColumn option \<Rightarrow> UpdateTableColumn list \<Rightarrow> panic + UpdateTableColumn list" where
  "linkColumns lastOne [] = Inr []"
| "linkColumns None (one # rest) =
     (case linkColumns (Some one) rest of Inl p \<Rightarrow> Inl p | Inr rest' \<Rightarrow> Inr (one # rest'))"
| "linkColumns (Some lastOne) (one # rest) =
     (case (ColumnModel lastOne, ColumnModel one) of
        (Some lastColumn, Some column) \<Rightarrow>
          (let one' = one\<lparr>ColumnModel := Some (column\<lparr>ColumnAfterColumn := ColumnName lastColumn\<rparr>)\<rparr>
           in case linkColumns (Some one') rest of Inl p \<Rightarrow> Inl p | Inr rest' \<Rightarrow> Inr (one' # rest'))
      | _ \<Rightarrow> Inl NilPointerDereference)"

text \<open>
  One round of the second loop: the primary-key names of the new and of the old column are
  collected, then the column is dropped, added or updated through the dialect.
\<close>

definition columnStep ::
  "('e, 's) Dialect \<Rightarrow> string \<Rightarrow> string \<Rightarrow> UpdateTableColumn \<Rightarrow>
   string list \<times> string list \<times> 's list \<Rightarrow> 'e failure + (string list \<times> string list \<times> 's list)" where
  "columnStep dia ownerName tableName one acc =
     (case acc of (newPrimaryKeys, oldPrimaryKeys, sqlList) \<Rightarrow>
      (case ColumnModel one of
         None \<Rightarrow> Inl (Panic NilPointerDereference)
       | Some column \<Rightarrow>
          (let newPrimaryKeys' =
                 (if PrimaryKey column then newPrimaryKeys @ [ColumnName column] else newPrimaryKeys);
               oldPrimaryKeys' =
                 (case OldColumn one of
                    None \<Rightarrow> oldPrimaryKeys
                  | Some oldColumn \<Rightarrow>
                      if PrimaryKey oldColumn then oldPrimaryKeys @ [ColumnName oldColumn]
                      else oldPrimaryKeys);
               r = (if UpdateTableColumn.Deleted one then
                      (case OldColumn one of
                         Some oldColumn \<Rightarrow>
                           emit (ColumnDeleteSql dia ownerName tableName (ColumnName oldColumn)) sqlList
                       | None \<Rightarrow> Inr sqlList)
                    else
                      (case OldColumn one of
                         None \<Rightarrow> emit (ColumnAddSql dia ownerName tableName column) sqlList
                       | Some oldColumn \<Rightarrow>
                           emit (ColumnUpdateSql dia ownerName tableName oldColumn column) sqlList))
           in case r of
                Inl f \<Rightarrow> Inl f
              | Inr sqlList' \<Rightarrow> Inr (newPrimaryKeys', oldPrimaryKeys', sqlList'))))"

fun columnLoop ::
  "('e, 's) Dialect \<Rightarrow> string \<Rightarrow> string \<Rightarrow> UpdateTableColumn list \<Rightarrow>
   string list \<times> string list \<times> 's list \<Rightarrow> 'e failure + (string list \<times> string list \<times> 's list)" where
  "columnLoop dia ownerName tableName [] acc = Inr acc"
| "columnLoop dia ownerName tableName (one # rest) acc =
     (case columnStep dia ownerName tableName one acc of
        Inl f \<Rightarrow> Inl f
      | Inr acc' \<Rightarrow> columnLoop dia ownerName tableName rest acc')"

text \<open>The two loops that set \<open>primaryKeyChange\<close>; the second runs only when the first left
  it false.\<close>

definition primaryKeyChange :: "string list \<Rightarrow> string list \<Rightarrow> bool" where
  "primaryKeyChange oldPrimaryKeys newPrimaryKeys =
     (if list_ex (\<lambda>oldPrimaryKey. StringsIndex newPrimaryKeys oldPrimaryKey < 0) oldPrimaryKeys
      then True
      else list_ex (\<lambda>newPrimaryKey. StringsIndex oldPrimaryKeys newPrimaryKey < 0) newPrimaryKeys)"

definition primaryKeySql ::
  "('e, 's) Dialect \<Rightarrow> string \<Rightarrow> string \<Rightarrow> string list \<Rightarrow> string list \<Rightarrow> 's list \<Rightarrow>
   'e failure + 's list" where
  "primaryKeySql dia ownerName tableName oldPrimaryKeys newPrimaryKeys sqlList =
     (if primaryKeyChange oldPrimaryKeys newPrimaryKeys then
        (case (if length oldPrimaryKeys > 0
               then emit (PrimaryKeyDeleteSql dia ownerName tableName) sqlList
               else Inr sqlList) of
           Inl f \<Rightarrow> Inl f
         | Inr sqlList' \<Rightarrow>
             if length newPrimaryKeys > 0
             then emit (PrimaryKeyAddSql dia ownerName tableName newPrimaryKeys) sqlList'
             else Inr sqlList')
      else Inr sqlList)"

text \<open>
  One round of the index loop.  The comparison reads the embedded new index, which panics
  when it is nil; \<open>IndexAddSql\<close> is handed the embedded pointer as it is.
\<close>

definition indexStep ::
  "('e, 's) Dialect \<Rightarrow> string \<Rightarrow> string \<Rightarrow> UpdateTableIndex \<Rightarrow> 's list \<Rightarrow> 'e failure + 's list" where
  "indexStep dia ownerName tableName one sqlList =
     (if UpdateTableIndex.Deleted one then
        (case OldIndex one of
           Some oldIndex \<Rightarrow> emit (IndexDeleteSql dia ownerName tableName (IndexName oldIndex)) sqlList
         | None \<Rightarrow> Inr sqlList)
      else
        (case OldIndex one of
           None \<Rightarrow> emit (IndexAddSql dia ownerName tableName (IndexModel one)) sqlList
         | Some oldIndex \<Rightarrow>
            (case IndexModel one of
               None \<Rightarrow> Inl (Panic NilPointerDereference)
             | Some index \<Rightarrow>
                 if IndexName index \<noteq> IndexName oldIndex \<or>
                    IndexType index \<noteq> IndexType oldIndex \<or>
                    IndexComment index \<noteq> IndexComment oldIndex \<or>
                    Join (ColumnNames index) '','' \<noteq> Join (ColumnNames oldIndex) '',''
                 then
                   (case emit (IndexDeleteSql dia ownerName tableName (IndexName oldIndex)) sqlList of
                      Inl f \<Rightarrow> Inl f
                    | Inr sqlList' \<Rightarrow>
                        emit (IndexAddSql dia ownerName tableName (IndexModel one)) sqlList')
                 else Inr sqlList)))"

fun indexLoop ::
  "('e, 's) Dialect \<Rightarrow> string \<Rightarrow> string \<Rightarrow> UpdateTableIndex list \<Rightarrow> 's list \<Rightarrow> 'e failure + 's list" where
  "indexLoop dia ownerName tableName [] sqlList = Inr sqlList"
| "indexLoop dia ownerName tableName (one # rest) sqlList =
     (case indexStep dia ownerName tableName one sqlList of
        Inl f \<Rightarrow> Inl f
      | Inr sqlList' \<Rightarrow> indexLoop dia ownerName tableName rest sqlList')"

text \<open>
  \<open>TableUpdateSql\<close>.  On an error the Go function also returns the statements gathered so
  far; its caller \<open>TableUpdate\<close> drops them, and so does the model.  The columns stay linked
  in the caller's parameter, as \<open>linkColumns\<close> leaves them.
\<close>

definition TableUpdateSql ::
  "('e, 's) Dialect \<Rightarrow> string \<Rightarrow> string \<Rightarrow> UpdateTableParam \<Rightarrow> 'e failure + 's list" where
  "TableUpdateSql dia ownerName tableName updateTableParam =
     (case linkColumns None (ColumnList updateTableParam) of
        Inl p \<Rightarrow> Inl (Panic p)
      | Inr columns \<Rightarrow>
         (case columnLoop dia ownerName tableName columns ([], [], []) of
            Inl f \<Rightarrow> Inl f
          | Inr (newPrimaryKeys, oldPrimaryKeys, sqlList) \<Rightarrow>
             (case primaryKeySql dia ownerName tableName oldPrimaryKeys newPrimaryKeys sqlList of
                Inl f \<Rightarrow> Inl f
              | Inr sqlList' \<Rightarrow>
                  indexLoop dia ownerName tableName (IndexList updateTableParam) sqlList')))"

subsection \<open>The plan of a diff\<close>

text \<open>
  The compiler decides which operations are needed and in which order; the text of each is
  the dialect's.  The plan dialect answers every call with the call itself, so that
  \<open>TableUpdateSql planDialect\<close> is the sequence of dialect calls the compiler makes.
\<close>

datatype operation =
    ColumnDelete string
  | ColumnAdd ColumnModel
  | ColumnUpdate ColumnModel ColumnModel
  | PrimaryKeyDelete
  | PrimaryKeyAdd "string list"
  | IndexDelete string
  | IndexAdd "IndexModel option"

definition planDialect :: "(unit, operation) Dialect" where
  "planDialect =
     \<lparr>ColumnDeleteSql = (\<lambda>ownerName tableName columnName. Inr [ColumnDelete columnName]),
      ColumnAddSql = (\<lambda>ownerName tableName column. Inr [ColumnAdd column]),
      ColumnUpdateSql = (\<lambda>ownerName tableName oldColumn column. Inr [ColumnUpdate oldColumn column]),
      PrimaryKeyDeleteSql = (\<lambda>ownerName tableName. Inr [PrimaryKeyDelete]),
      PrimaryKeyAddSql = (\<lambda>ownerName tableName primaryKeys. Inr [PrimaryKeyAdd primaryKeys]),
      IndexDeleteSql = (\<lambda>ownerName tableName indexName. Inr [IndexDelete indexName]),
      IndexAddSql = (\<lambda>ownerName tableName index. Inr [IndexAdd index])\<rparr>"

text \<open>Carrying a plan out with a dialect: the statements of each operation in turn, up to
  the first error.\<close>

fun perform :: "('e, 's) Dialect \<Rightarrow> string \<Rightarrow> string \<Rightarrow> operation \<Rightarrow> 'e + 's list" where
  "perform dia ownerName tableName (ColumnDelete columnName) = ColumnDeleteSql dia ownerName tableName columnName"
| "perform dia ownerName tableName (ColumnAdd column) = ColumnAddSql dia ownerName tableName column"
| "perform dia ownerName tableName (ColumnUpdate oldColumn column) =
     ColumnUpdateSql dia ownerName tableName oldColumn column"
| "perform dia ownerName tableName PrimaryKeyDelete = PrimaryKeyDeleteSql dia ownerName tableName"
| "perform dia ownerName tableName (PrimaryKeyAdd primaryKeys) =
     PrimaryKeyAddSql dia ownerName tableName primaryKeys"
| "perform dia ownerName tableName (IndexDelete indexName) = IndexDeleteSql dia ownerName tableName indexName"
| "perform dia ownerName tableName (IndexAdd index) = IndexAddSql dia ownerName tableName index"

fun performAll ::
  "('e, 's) Dialect \<Rightarrow> string \<Rightarrow> string \<Rightarrow> operation list \<Rightarrow> 's list \<Rightarrow> 'e failure + 's list" where
  "performAll dia ownerName tableName [] sqlList = Inr sqlList"
| "performAll dia ownerName tableName (op # ops) sqlList =
     (case emit (perform dia ownerName tableName op) sqlList of
        Inl f \<Rightarrow> Inl f
      | Inr sqlList' \<Rightarrow> performAll dia ownerName tableName ops sqlList')"

text \<open>The primary-key operations of a plan.\<close>

fun isPrimaryKeyOp :: "operation \<Rightarrow> bool" where
  "isPrimaryKeyOp PrimaryKeyDelete = True"
| "isPrimaryKeyOp (PrimaryKeyAdd primaryKeys) = True"
| "isPrimaryKeyOp _ = False"

fun isPrimaryKeyAdd :: "operation \<Rightarrow> bool" where
  "isPrimaryKeyAdd (PrimaryKeyAdd primaryKeys) = True"
| "isPrimaryKeyAdd _ = False"

fun isPrimaryKeyDelete :: "operation \<Rightarrow> bool" where
  "isPrimaryKeyDelete PrimaryKeyDelete = True"
| "isPrimaryKeyDelete _ = False"

fun isIndexOp :: "operation \<Rightarrow> bool" where
  "isIndexOp (IndexDelete indexName) = True"
| "isIndexOp (IndexAdd index) = True"
| "isIndexOp _ = False"

fun isColumnUpdate :: "operation \<Rightarrow> bool" where
  "isColumnUpdate (ColumnUpdate oldColumn column) = True"
| "isColumnUpdate _ = False"

text \<open>The names the second loop collects: of every entry whose new column is a primary
  key, and of every entry whose old column is one (deleted entries included).\<close>

definition newPrimaryKeysOf :: "UpdateTableColumn list \<Rightarrow> string list" where
  "newPrimaryKeysOf columns =
     map ColumnName (filter PrimaryKey (List.map_filter ColumnModel columns))"

definition oldPrimaryKeysOf :: "UpdateTableColumn list \<Rightarrow> string list" where
  "oldPrimaryKeysOf columns =
     map ColumnName (filter PrimaryKey (List.map_filter OldColumn columns))"

subsection \<open>What each entry asks for\<close>

text \<open>
  The operations of one column entry, of the primary key and of one index entry, written as
  the cases the compiler distinguishes.  The theorems below compare \<open>TableUpdateSql\<close>
  with them.
\<close>

definition columnOps :: "UpdateTableColumn \<Rightarrow> operation list" where
  "columnOps one =
     (case ColumnModel one of
        None \<Rightarrow> []
      | Some column \<Rightarrow>
          if UpdateTableColumn.Deleted one then
            (case OldColumn one of Some oldColumn \<Rightarrow> [ColumnDelete (ColumnName oldColumn)] | None \<Rightarrow> [])
          else
            (case OldColumn one of
               None \<Rightarrow> [ColumnAdd column]
             | Some oldColumn \<Rightarrow> [ColumnUpdate oldColumn column]))"

definition primaryKeyOps :: "string list \<Rightarrow> string list \<Rightarrow> operation list" where
  "primaryKeyOps oldPrimaryKeys newPrimaryKeys =
     (if set oldPrimaryKeys \<noteq> set newPrimaryKeys then
        (if oldPrimaryKeys \<noteq> [] then [PrimaryKeyDelete] else []) @
        (if newPrimaryKeys \<noteq> [] then [PrimaryKeyAdd newPrimaryKeys] else [])
      else [])"

definition indexChanged :: "IndexModel \<Rightarrow> IndexModel \<Rightarrow> bool" where
  "indexChanged index oldIndex \<longleftrightarrow>
     IndexName index \<noteq> IndexName oldIndex \<or>
     IndexType index \<noteq> IndexType oldIndex \<or>
     IndexComment index \<noteq> IndexComment oldIndex \<or>
     Join (ColumnNames index) '','' \<noteq> Join (ColumnNames oldIndex) '',''"

definition indexOps :: "UpdateTableIndex \<Rightarrow> operation list" where
  "indexOps one =
     (if UpdateTableIndex.Deleted one then
        (case OldIndex one of Some oldIndex \<Rightarrow> [IndexDelete (IndexName oldIndex)] | None \<Rightarrow> [])
      else
        (case OldIndex one of
           None \<Rightarrow> [IndexAdd (IndexModel one)]
         | Some oldIndex \<Rightarrow>
            (case IndexModel one of
               None \<Rightarrow> []
             | Some index \<Rightarrow>
                 if indexChanged index oldIndex
                 then [IndexDelete (IndexName oldIndex), IndexAdd (IndexModel one)]
                 else [])))"

text \<open>
  The embedded pointers that \<open>TableUpdateSql\<close> dereferences are allocated: the new column
  of every column entry, and the new index of every index entry that is kept and has an old
  index.
\<close>

definition allocated :: "UpdateTableParam \<Rightarrow> bool" where
  "allocated updateTableParam \<longleftrightarrow>
     list_all (\<lambda>one. ColumnModel one \<noteq> None) (ColumnList updateTableParam) \<and>
     list_all (\<lambda>one. UpdateTableIndex.Deleted one \<or> OldIndex one = None \<or> IndexModel one \<noteq> None)
       (IndexList updateTableParam)"

text \<open>A linked column entry differs from the entry it comes from in \<open>ColumnAfterColumn\<close>
  at most.\<close>

definition relinked :: "UpdateTableColumn \<Rightarrow> UpdateTableColumn \<Rightarrow> bool" where
  "relinked one one' \<longleftrightarrow>
     OldColumn one' = OldColumn one \<and>
     UpdateTableColumn.Deleted one' = UpdateTableColumn.Deleted one \<and>
     (case ColumnModel one of
        None \<Rightarrow> ColumnModel one' = None
      | Some column \<Rightarrow>
          (case ColumnModel one' of
             None \<Rightarrow> False
           | Some column' \<Rightarrow> column' = column\<lparr>ColumnAfterColumn := ColumnAfterColumn column'\<rparr>))"

text \<open>Nothing is to change: every column and index is kept and carries an old model equal
  to its new one.\<close>

definition unchanged :: "UpdateTableParam \<Rightarrow> bool" where
  "unchanged updateTableParam \<longleftrightarrow>
     list_all (\<lambda>one. \<not> UpdateTableColumn.Deleted one \<and> ColumnModel one \<noteq> None \<and>
                  OldColumn one = ColumnModel one) (ColumnList updateTableParam) \<and>
     list_all (\<lambda>one. \<not> UpdateTableIndex.Deleted one \<and> IndexModel one \<noteq> None \<and>
                  OldIndex one = IndexModel one) (IndexList updateTableParam)"

subsection \<open>Example parameters\<close>

definition intColumn :: "string \<Rightarrow> bool \<Rightarrow> ColumnModel" where
  "intColumn name primaryKey =
     \<lparr>ColumnName = name, ColumnComment = [], ColumnDataType = ''int'', ColumnNotNull = primaryKey,
      ColumnDefault = [], PrimaryKey = primaryKey, ColumnAfterColumn = []\<rparr>"

definition plainIndex :: "string \<Rightarrow> string list \<Rightarrow> IndexModel" where
  "plainIndex name columnNames =
     \<lparr>IndexName = name, IndexType = ''index'', IndexComment = [], ColumnNames = columnNames\<rparr>"

text \<open>Table \<open>orders\<close> with the columns \<open>id\<close> (primary key) and \<open>status\<close>: \<open>status\<close> is
  dropped, \<open>region\<close> is added, and so is the primary-key column \<open>tenant_id\<close>.\<close>

definition ordersParam :: UpdateTableParam where
  "ordersParam =
     \<lparr>TableComment = [], OldTableComment = [],
      ColumnList =
        [\<lparr>ColumnModel = Some (intColumn ''id'' True), OldColumn = Some (intColumn ''id'' True),
          Deleted = False\<rparr>,
         \<lparr>ColumnModel = Some (intColumn ''status'' False),
          OldColumn = Some (intColumn ''status'' False), Deleted = True\<rparr>,
         \<lparr>ColumnModel = Some (intColumn ''region'' False), OldColumn = None, Deleted = False\<rparr>,
         \<lparr>ColumnModel = Some (intColumn ''tenant_id'' True), OldColumn = None, Deleted = False\<rparr>],
      IndexList = []\<rparr>"

text \<open>A table without a primary key that gets the key column \<open>id\<close>.\<close>

definition firstKeyParam :: UpdateTableParam where
  "firstKeyParam =
     \<lparr>TableComment = [], OldTableComment = [],
      ColumnList =
        [\<lparr>ColumnModel = Some (intColumn ''id'' True), OldColumn = Some (intColumn ''id'' False),
          Deleted = False\<rparr>,
         \<lparr>ColumnModel = Some (intColumn ''status'' False),
          OldColumn = Some (intColumn ''status'' False), Deleted = False\<rparr>],
      IndexList = []\<rparr>"

text \<open>The same table definition on both sides: two columns and an index.\<close>

definition keepParam :: UpdateTableParam where
  "keepParam =
     \<lparr>TableComment = [], OldTableComment = [],
      ColumnList =
        [\<lparr>ColumnModel = Some (intColumn ''id'' True), OldColumn = Some (intColumn ''id'' True),
          Deleted = False\<rparr>,
         \<lparr>ColumnModel = Some (intColumn ''status'' False),
          OldColumn = Some (intColumn ''status'' False), Deleted = False\<rparr>],
      IndexList =
        [\<lparr>IndexModel = Some (plainIndex ''idx_status'' [''status'']),
          OldIndex = Some (plainIndex ''idx_status'' [''status'']), Deleted = False\<rparr>]\<rparr>"

text \<open>Index entries of every kind: dropped, new, reordered, untouched, and one that is marked
  deleted though it never existed.\<close>

definition indexParam :: UpdateTableParam where
  "indexParam =
     \<lparr>TableComment = [], OldTableComment = [], ColumnList = [],
      IndexList =
        [\<lparr>IndexModel = Some (plainIndex ''idx_a'' [''a'']),
          OldIndex = Some (plainIndex ''idx_a'' [''a'']), Deleted = True\<rparr>,
         \<lparr>IndexModel = Some (plainIndex ''idx_b'' [''b'']), OldIndex = None, Deleted = False\<rparr>,
         \<lparr>IndexModel = Some (plainIndex ''idx_cd'' [''d'', ''c'']),
          OldIndex = Some (plainIndex ''idx_cd'' [''c'', ''d'']), Deleted = False\<rparr>,
         \<lparr>IndexModel = Some (plainIndex ''idx_e'' [''e'']),
          OldIndex = Some (plainIndex ''idx_e'' [''e'']), Deleted = False\<rparr>,
         \<lparr>IndexModel = Some (plainIndex ''idx_f'' [''f'']), OldIndex = None, Deleted = True\<rparr>]\<rparr>"

definition ghostIndexParam :: UpdateTableParam where
  "ghostIndexParam =
     \<lparr>TableComment = [], OldTableComment = [], ColumnList = [],
      IndexList =
        [\<lparr>IndexModel = Some (plainIndex ''idx_f'' [''f'']), OldIndex = None, Deleted = True\<rparr>]\<rparr>"

text \<open>
  A dialect that writes text, and that alters a column only when an attribute other than its
  position differs between the old and the new column.
\<close>

definition textDialect :: "(string, string) Dialect" where
  "textDialect =
     \<lparr>ColumnDeleteSql = (\<lambda>ownerName tableName columnName.
        Inr [''ALTER TABLE '' @ tableName @ '' DROP COLUMN '' @ columnName]),
      ColumnAddSql = (\<lambda>ownerName tableName column.
        Inr [''ALTER TABLE '' @ tableName @ '' ADD COLUMN '' @ ColumnName column]),
      ColumnUpdateSql = (\<lambda>ownerName tableName oldColumn column.
        if oldColumn\<lparr>ColumnAfterColumn := ColumnAfterColumn column\<rparr> = column then Inr []
        else Inr [''ALTER TABLE '' @ tableName @ '' MODIFY COLUMN '' @ ColumnName column]),
      PrimaryKeyDeleteSql = (\<lambda>ownerName tableName.
        Inr [''ALTER TABLE '' @ tableName @ '' DROP PRIMARY KEY'']),
      PrimaryKeyAddSql = (\<lambda>ownerName tableName primaryKeys.
        Inr [''ALTER TABLE '' @ tableName @ '' ADD PRIMARY KEY ('' @ Join primaryKeys '','' @ '')'']),
      IndexDeleteSql = (\<lambda>ownerName tableName indexName.
        Inr [''DROP INDEX '' @ indexName]),
      IndexAddSql = (\<lambda>ownerName tableName index.
        case index of
          None \<Rightarrow> Inl ''no index''
        | Some index \<Rightarrow> Inr [''CREATE INDEX '' @ IndexName index @ '' ON '' @ tableName])\<rparr>"

section \<open>The result projector: the row loop of \<open>TableData\<close> (pkg/db/service.go)\<close>

text \<open>
  Modelled from the spec: \<open>util.ContainsString\<close> is not among the sources.  The loop removes
  a key when \<open>util.ContainsString(names, lower) < 0\<close>, and the specification has the keys
  removed whose name is not in the requested column list: the function returns the index of
  the string in the list, and a negative number when the list does not hold it.
\<close>

fun ContainsString :: "string list \<Rightarrow> string \<Rightarrow> int" where
  "ContainsString [] val = - 1"
| "ContainsString (x # xs) val =
     (if x = val then 0
      else (let i = ContainsString xs val in if i < 0 then - 1 else i + 1))"

text \<open>The \<open>switch tV := v.(type)\<close> of the loop.\<close>

fun normalizeValue :: "('t, 'f, 'o) Runtime \<Rightarrow> ('t, 'f, 'o) any \<Rightarrow> ('t, 'f, 'o) any" where
  "normalizeValue rt (Time tV) = (if IsZero rt tV then NilValue else Int64 (GetTimeTime rt tV))"
| "normalizeValue rt (Float64 tV) = String (Sprintf_f rt 64 tV)"
| "normalizeValue rt (Float32 tV) = String (Sprintf_f rt 32 tV)"
| "normalizeValue rt (Int64 tV) = String (Sprintf_d tV)"
| "normalizeValue rt (GoInt tV) = String (showInt tV)"
| "normalizeValue rt (String tV) = String tV"
| "normalizeValue rt (Other tV) = String (Sprint rt tV)"
| "normalizeValue rt NilValue = String ''<nil>''"

text \<open>
  The body of \<open>for name, v := range item\<close>, which changes the row in place: a nil value is
  passed over, a key that is not requested is deleted, any other value is normalized.
\<close>

definition itemStep ::
  "('t, 'f, 'o) Runtime \<Rightarrow> string list \<Rightarrow> string \<Rightarrow> ('t, 'f, 'o) any \<Rightarrow>
   (string \<rightharpoonup> ('t, 'f, 'o) any) \<Rightarrow> (string \<rightharpoonup> ('t, 'f, 'o) any)" where
  "itemStep rt names name v item =
     (if v = NilValue then item
      else if ContainsString names (ToLower rt name) < 0 then item(name := None)
      else item(name \<mapsto> normalizeValue rt v))"

text \<open>
  The range loop over one row.  Go visits the entries of a map in an order of its choosing;
  the row is given as the list of its entries in the order of the visit, and the loop works
  on the map of these entries.
\<close>

fun rangeItem ::
  "('t, 'f, 'o) Runtime \<Rightarrow> string list \<Rightarrow> (string \<times> ('t, 'f, 'o) any) list \<Rightarrow>
   (string \<rightharpoonup> ('t, 'f, 'o) any) \<Rightarrow> (string \<rightharpoonup> ('t, 'f, 'o) any)" where
  "rangeItem rt names [] item = item"
| "rangeItem rt names ((name, v) # rest) item = rangeItem rt names rest (itemStep rt names name v item)"

text \<open>The loops of \<open>TableData\<close> after the query: the lower-case names of the requested
  columns, then every row of \<open>listMap\<close>.\<close>

definition TableData_dataList ::
  "('t, 'f, 'o) Runtime \<Rightarrow> ColumnModel list \<Rightarrow> (string \<times> ('t, 'f, 'o) any) list list \<Rightarrow>
   (string \<rightharpoonup> ('t, 'f, 'o) any) list" where
  "TableData_dataList rt columnList listMap =
     (let names = map (\<lambda>column. ToLower rt (ColumnName column)) columnList
      in map (\<lambda>item. rangeItem rt names item (map_of item)) listMap)"

definition exampleRow :: "(string \<times> (int, int, string) any) list" where
  "exampleRow =
     [(''ID'', Int64 42), (''created'', Time 1700000000000), (''deleted'', Time (- 62135596800000)),
      (''price'', Float64 9), (''RN'', Int64 7), (''note'', NilValue), (''ghost'', NilValue)]"

definition exampleColumns :: "ColumnModel list" where
  "exampleColumns =
     map (\<lambda>name. \<lparr>ColumnName = name, ColumnComment = [], ColumnDataType = [], ColumnNotNull = False,
                   ColumnDefault = [], PrimaryKey = False, ColumnAfterColumn = []\<rparr>)
       [''id'', ''Created'', ''deleted'', ''price'', ''note'']"

section \<open>Properties of \<open>sortName\<close>\<close>











text \<open>
  Claim C10 asks that \<open>sortName\<close> never panics.  It does: when every segment of an overlong
  name is empty the per-segment budget divides by zero, and when there are more segments
  than \<open>size\<close> the budget is zero and a longer segment is sliced to \<open>s[0:-1]\<close>.  The third
  input is one the index-name formatter can pass, with its limit of 30.
\<close>

theorem sortName_panics:
  "sortName ''___'' 2 = Inl IntegerDivideByZero \<and>
   sortName ''ab_b_c'' 2 = Inl SliceBoundsOutOfRange \<and>
   sortName (replicate 31 (CHR ''_'')) 30 = Inl IntegerDivideByZero"
  by code_simp


section \<open>Properties of \<open>TableUpdateSql\<close>\<close>

lemma StringsIndex_neg: "StringsIndex xs v < 0 \<longleftrightarrow> v \<notin> set xs"
  by (induction xs) (auto simp: Let_def)

lemma primaryKeyChange_iff:
  "primaryKeyChange oldPrimaryKeys newPrimaryKeys \<longleftrightarrow> set oldPrimaryKeys \<noteq> set newPrimaryKeys"
  by (auto simp: primaryKeyChange_def list_ex_iff StringsIndex_neg)

lemma relinked_refl: "relinked one one"
  by (simp add: relinked_def split: option.splits)

lemma relinked_update:
  "ColumnModel one = Some column \<Longrightarrow>
   relinked one (one\<lparr>ColumnModel := Some (column\<lparr>ColumnAfterColumn := a\<rparr>)\<rparr>)"
  by (simp add: relinked_def)

lemma linkColumns_relinked:
  "linkColumns lastOne columns = Inr columns' \<Longrightarrow> list_all2 relinked columns columns'"
proof (induction columns arbitrary: lastOne columns')
  case Nil
  then show ?case by simp
next
  case (Cons one rest)
  show ?case
  proof (cases lastOne)
    case None
    with Cons.prems obtain rest' where r: "linkColumns (Some one) rest = Inr rest'"
      and c: "columns' = one # rest'"
      by (auto split: sum.splits)
    from Cons.IH [OF r] c show ?thesis by (simp add: relinked_refl)
  next
    case (Some l)
    with Cons.prems obtain lastColumn column rest' where
      m: "ColumnModel l = Some lastColumn" "ColumnModel one = Some column"
      and r: "linkColumns (Some (one\<lparr>ColumnModel := Some (column\<lparr>ColumnAfterColumn := ColumnName lastColumn\<rparr>)\<rparr>)) rest = Inr rest'"
      and c: "columns' = one\<lparr>ColumnModel := Some (column\<lparr>ColumnAfterColumn := ColumnName lastColumn\<rparr>)\<rparr> # rest'"
      by (auto split: sum.splits option.splits simp: Let_def)
    from Cons.IH [OF r] c m(2) show ?thesis by (simp add: relinked_update)
  qed
qed

lemma linkColumns_allocated:
  assumes "list_all (\<lambda>one. ColumnModel one \<noteq> None) columns"
    and "case lastOne of None \<Rightarrow> True | Some l \<Rightarrow> ColumnModel l \<noteq> None"
  shows "\<exists>columns'. linkColumns lastOne columns = Inr columns'"
  using assms
proof (induction columns arbitrary: lastOne)
  case Nil
  then show ?case by simp
next
  case (Cons one rest)
  from Cons.prems(1) obtain column where col: "ColumnModel one = Some column" and
    rest: "list_all (\<lambda>one. ColumnModel one \<noteq> None) rest"
    by auto
  show ?case
  proof (cases lastOne)
    case None
    from Cons.IH [OF rest, of "Some one"] col obtain rest' where
      "linkColumns (Some one) rest = Inr rest'" by auto
    with None show ?thesis by simp
  next
    case (Some l)
    with Cons.prems(2) obtain lastColumn where l: "ColumnModel l = Some lastColumn" by auto
    define one' where "one' = one\<lparr>ColumnModel := Some (column\<lparr>ColumnAfterColumn := ColumnName lastColumn\<rparr>)\<rparr>"
    from Cons.IH [OF rest, of "Some one'"] obtain rest' where
      "linkColumns (Some one') rest = Inr rest'" by (auto simp: one'_def)
    with Some l col show ?thesis by (simp add: one'_def Let_def)
  qed
qed


lemma newPrimaryKeysOf_Cons:
  "newPrimaryKeysOf (one # rest) =
     (case ColumnModel one of
        None \<Rightarrow> []
      | Some column \<Rightarrow> if PrimaryKey column then [ColumnName column] else []) @
     newPrimaryKeysOf rest"
  by (simp add: newPrimaryKeysOf_def List.map_filter_simps split: option.splits)

lemma oldPrimaryKeysOf_Cons:
  "oldPrimaryKeysOf (one # rest) =
     (case OldColumn one of
        None \<Rightarrow> []
      | Some oldColumn \<Rightarrow> if PrimaryKey oldColumn then [ColumnName oldColumn] else []) @
     oldPrimaryKeysOf rest"
  by (simp add: oldPrimaryKeysOf_def List.map_filter_simps split: option.splits)

lemma PrimaryKeysOf_Nil: "newPrimaryKeysOf [] = []" "oldPrimaryKeysOf [] = []"
  by (simp_all add: newPrimaryKeysOf_def oldPrimaryKeysOf_def List.map_filter_simps)

lemma relinked_column:
  assumes "relinked one one'" and "ColumnModel one = Some column"
  shows "\<exists>column'. ColumnModel one' = Some column' \<and> ColumnName column' = ColumnName column \<and>
           PrimaryKey column' = PrimaryKey column"
proof -
  from assms obtain column' where c': "ColumnModel one' = Some column'"
    and eq: "column' = column\<lparr>ColumnAfterColumn := ColumnAfterColumn column'\<rparr>"
    by (auto simp: relinked_def split: option.splits)
  have "ColumnName (column\<lparr>ColumnAfterColumn := ColumnAfterColumn column'\<rparr>) = ColumnName column"
    "PrimaryKey (column\<lparr>ColumnAfterColumn := ColumnAfterColumn column'\<rparr>) = PrimaryKey column"
    by simp_all
  with eq have "ColumnName column' = ColumnName column" "PrimaryKey column' = PrimaryKey column"
    by simp_all
  with c' show ?thesis by simp
qed

lemma relinked_newPrimaryKeysOf:
  "list_all2 relinked columns columns' \<Longrightarrow> newPrimaryKeysOf columns' = newPrimaryKeysOf columns"
proof (induction rule: list_all2_induct)
  case Nil
  then show ?case by simp
next
  case (Cons x xs y ys)
  show ?case
  proof (cases "ColumnModel x")
    case None
    with Cons(1) have "ColumnModel y = None" by (simp add: relinked_def)
    with None Cons(3) show ?thesis by (simp add: newPrimaryKeysOf_Cons)
  next
    case (Some column)
    from relinked_column [OF Cons(1) Some] Some Cons(3) show ?thesis
      by (auto simp: newPrimaryKeysOf_Cons)
  qed
qed

lemma relinked_oldPrimaryKeysOf:
  "list_all2 relinked columns columns' \<Longrightarrow> oldPrimaryKeysOf columns' = oldPrimaryKeysOf columns"
proof (induction rule: list_all2_induct)
  case Nil
  then show ?case by simp
next
  case (Cons x xs y ys)
  from Cons(1) have "OldColumn y = OldColumn x" by (simp add: relinked_def)
  with Cons(3) show ?case by (simp add: oldPrimaryKeysOf_Cons)
qed

lemma relinked_allocated:
  "list_all2 relinked columns columns' \<Longrightarrow> list_all (\<lambda>one. ColumnModel one \<noteq> None) columns \<Longrightarrow>
   list_all (\<lambda>one. ColumnModel one \<noteq> None) columns'"
  by (induction rule: list_all2_induct) (auto simp: relinked_def split: option.splits)

lemma emit_plan [simp]: "emit (Inr ops) sqlList = Inr (sqlList @ ops)"
  by (simp add: emit_def)

lemma columnStep_plan:
  assumes "ColumnModel one \<noteq> None"
  shows "columnStep planDialect ownerName tableName one (newPrimaryKeys, oldPrimaryKeys, sqlList) =
     Inr (newPrimaryKeys @ newPrimaryKeysOf [one], oldPrimaryKeys @ oldPrimaryKeysOf [one],
          sqlList @ columnOps one)"
  using assms
  by (auto simp: columnStep_def planDialect_def columnOps_def newPrimaryKeysOf_Cons
      oldPrimaryKeysOf_Cons PrimaryKeysOf_Nil Let_def split: option.splits)

lemma columnLoop_plan:
  assumes "list_all (\<lambda>one. ColumnModel one \<noteq> None) columns"
  shows "columnLoop planDialect ownerName tableName columns (newPrimaryKeys, oldPrimaryKeys, sqlList) =
     Inr (newPrimaryKeys @ newPrimaryKeysOf columns, oldPrimaryKeys @ oldPrimaryKeysOf columns,
          sqlList @ concat (map columnOps columns))"
  using assms
proof (induction columns arbitrary: newPrimaryKeys oldPrimaryKeys sqlList)
  case Nil
  then show ?case by (simp add: PrimaryKeysOf_Nil)
next
  case (Cons one rest)
  from Cons.prems have one: "ColumnModel one \<noteq> None"
    and rest: "list_all (\<lambda>one. ColumnModel one \<noteq> None) rest" by simp_all
  have n: "newPrimaryKeysOf (one # rest) = newPrimaryKeysOf [one] @ newPrimaryKeysOf rest"
    and ol: "oldPrimaryKeysOf (one # rest) = oldPrimaryKeysOf [one] @ oldPrimaryKeysOf rest"
    by (simp_all add: newPrimaryKeysOf_Cons oldPrimaryKeysOf_Cons PrimaryKeysOf_Nil)
  show ?case
    by (simp add: columnStep_plan [OF one] Cons.IH [OF rest] n ol)
qed

lemma primaryKeySql_plan:
  "primaryKeySql planDialect ownerName tableName oldPrimaryKeys newPrimaryKeys sqlList =
     Inr (sqlList @ primaryKeyOps oldPrimaryKeys newPrimaryKeys)"
  by (simp add: primaryKeySql_def primaryKeyOps_def primaryKeyChange_iff planDialect_def)

lemma indexStep_plan:
  assumes "UpdateTableIndex.Deleted one \<or> OldIndex one = None \<or> IndexModel one \<noteq> None"
  shows "indexStep planDialect ownerName tableName one sqlList = Inr (sqlList @ indexOps one)"
  using assms
  by (auto simp: indexStep_def indexOps_def indexChanged_def planDialect_def split: option.splits)

lemma indexLoop_plan:
  assumes "list_all (\<lambda>one. UpdateTableIndex.Deleted one \<or> OldIndex one = None \<or> IndexModel one \<noteq> None) indexes"
  shows "indexLoop planDialect ownerName tableName indexes sqlList =
     Inr (sqlList @ concat (map indexOps indexes))"
  using assms
proof (induction indexes arbitrary: sqlList)
  case Nil
  then show ?case by simp
next
  case (Cons one rest)
  then show ?case by (simp add: indexStep_plan)
qed

text \<open>The plan of a well-allocated parameter.\<close>

lemma TableUpdateSql_plan:
  assumes "allocated p"
  shows "\<exists>columns. linkColumns None (ColumnList p) = Inr columns \<and>
           list_all2 relinked (ColumnList p) columns \<and>
           TableUpdateSql planDialect ownerName tableName p =
             Inr (concat (map columnOps columns) @
                  primaryKeyOps (oldPrimaryKeysOf (ColumnList p)) (newPrimaryKeysOf (ColumnList p)) @
                  concat (map indexOps (IndexList p)))"
proof -
  from assms have cols: "list_all (\<lambda>one. ColumnModel one \<noteq> None) (ColumnList p)"
    and idx: "list_all (\<lambda>one. UpdateTableIndex.Deleted one \<or> OldIndex one = None \<or> IndexModel one \<noteq> None) (IndexList p)"
    by (simp_all add: allocated_def)
  from linkColumns_allocated [OF cols, of None] obtain columns where
    link: "linkColumns None (ColumnList p) = Inr columns" by auto
  have rel: "list_all2 relinked (ColumnList p) columns"
    using link by (rule linkColumns_relinked)
  have cols': "list_all (\<lambda>one. ColumnModel one \<noteq> None) columns"
    using rel cols by (rule relinked_allocated)
  have "TableUpdateSql planDialect ownerName tableName p =
      Inr (concat (map columnOps columns) @
           primaryKeyOps (oldPrimaryKeysOf columns) (newPrimaryKeysOf columns) @
           concat (map indexOps (IndexList p)))"
    by (simp add: TableUpdateSql_def link columnLoop_plan [OF cols'] primaryKeySql_plan
        indexLoop_plan [OF idx])
  with link rel show ?thesis
    by (simp add: relinked_newPrimaryKeysOf [OF rel] relinked_oldPrimaryKeysOf [OF rel])
qed

lemma performAll_append:
  "performAll dia ownerName tableName (ops @ ops') sqlList =
     (case performAll dia ownerName tableName ops sqlList of
        Inl f \<Rightarrow> Inl f
      | Inr sqlList' \<Rightarrow> performAll dia ownerName tableName ops' sqlList')"
  by (induction ops arbitrary: sqlList) (auto split: sum.splits)

lemma columnStep_perform:
  assumes "ColumnModel one \<noteq> None"
  shows "columnStep dia ownerName tableName one (newPrimaryKeys, oldPrimaryKeys, sqlList) =
     (case performAll dia ownerName tableName (columnOps one) sqlList of
        Inl f \<Rightarrow> Inl f
      | Inr sqlList' \<Rightarrow>
          Inr (newPrimaryKeys @ newPrimaryKeysOf [one], oldPrimaryKeys @ oldPrimaryKeysOf [one], sqlList'))"
  using assms
  by (auto simp: columnStep_def columnOps_def newPrimaryKeysOf_Cons
      oldPrimaryKeysOf_Cons PrimaryKeysOf_Nil Let_def split: option.splits sum.splits)

lemma columnLoop_perform:
  assumes "list_all (\<lambda>one. ColumnModel one \<noteq> None) columns"
  shows "columnLoop dia ownerName tableName columns (newPrimaryKeys, oldPrimaryKeys, sqlList) =
     (case performAll dia ownerName tableName (concat (map columnOps columns)) sqlList of
        Inl f \<Rightarrow> Inl f
      | Inr sqlList' \<Rightarrow>
          Inr (newPrimaryKeys @ newPrimaryKeysOf columns, oldPrimaryKeys @ oldPrimaryKeysOf columns, sqlList'))"
  using assms
proof (induction columns arbitrary: newPrimaryKeys oldPrimaryKeys sqlList)
  case Nil
  then show ?case by (simp add: PrimaryKeysOf_Nil)
next
  case (Cons one rest)
  from Cons.prems have one: "ColumnModel one \<noteq> None"
    and rest: "list_all (\<lambda>one. ColumnModel one \<noteq> None) rest" by simp_all
  have n: "newPrimaryKeysOf (one # rest) = newPrimaryKeysOf [one] @ newPrimaryKeysOf rest"
    and ol: "oldPrimaryKeysOf (one # rest) = oldPrimaryKeysOf [one] @ oldPrimaryKeysOf rest"
    by (simp_all add: newPrimaryKeysOf_Cons oldPrimaryKeysOf_Cons PrimaryKeysOf_Nil)
  show ?case
    by (simp add: columnStep_perform [OF one] Cons.IH [OF rest] n ol performAll_append
        split: sum.splits)
qed

lemma primaryKeySql_perform:
  "primaryKeySql dia ownerName tableName oldPrimaryKeys newPrimaryKeys sqlList =
     performAll dia ownerName tableName (primaryKeyOps oldPrimaryKeys newPrimaryKeys) sqlList"
  by (auto simp: primaryKeySql_def primaryKeyOps_def primaryKeyChange_iff split: sum.splits)

lemma indexStep_perform:
  assumes "UpdateTableIndex.Deleted one \<or> OldIndex one = None \<or> IndexModel one \<noteq> None"
  shows "indexStep dia ownerName tableName one sqlList =
     performAll dia ownerName tableName (indexOps one) sqlList"
  using assms
  by (auto simp: indexStep_def indexOps_def indexChanged_def split: option.splits sum.splits)

lemma indexLoop_perform:
  assumes "list_all (\<lambda>one. UpdateTableIndex.Deleted one \<or> OldIndex one = None \<or> IndexModel one \<noteq> None) indexes"
  shows "indexLoop dia ownerName tableName indexes sqlList =
     performAll dia ownerName tableName (concat (map indexOps indexes)) sqlList"
  using assms
proof (induction indexes arbitrary: sqlList)
  case Nil
  then show ?case by simp
next
  case (Cons one rest)
  then show ?case by (simp add: indexStep_perform performAll_append split: sum.splits)
qed

text \<open>With any dialect, \<open>TableUpdateSql\<close> carries out the plan.\<close>

lemma TableUpdateSql_perform:
  assumes "allocated p"
  shows "\<exists>columns. linkColumns None (ColumnList p) = Inr columns \<and>
           list_all2 relinked (ColumnList p) columns \<and>
           TableUpdateSql dia ownerName tableName p =
             performAll dia ownerName tableName
               (concat (map columnOps columns) @
                primaryKeyOps (oldPrimaryKeysOf (ColumnList p)) (newPrimaryKeysOf (ColumnList p)) @
                concat (map indexOps (IndexList p))) []"
proof -
  from assms have cols: "list_all (\<lambda>one. ColumnModel one \<noteq> None) (ColumnList p)"
    and idx: "list_all (\<lambda>one. UpdateTableIndex.Deleted one \<or> OldIndex one = None \<or> IndexModel one \<noteq> None) (IndexList p)"
    by (simp_all add: allocated_def)
  from linkColumns_allocated [OF cols, of None] obtain columns where
    link: "linkColumns None (ColumnList p) = Inr columns" by auto
  have rel: "list_all2 relinked (ColumnList p) columns"
    using link by (rule linkColumns_relinked)
  have cols': "list_all (\<lambda>one. ColumnModel one \<noteq> None) columns"
    using rel cols by (rule relinked_allocated)
  have "TableUpdateSql dia ownerName tableName p =
      performAll dia ownerName tableName
       (concat (map columnOps columns) @
           primaryKeyOps (oldPrimaryKeysOf columns) (newPrimaryKeysOf columns) @
           concat (map indexOps (IndexList p))) []"
    by (simp add: TableUpdateSql_def link columnLoop_perform [OF cols'] primaryKeySql_perform
        indexLoop_perform [OF idx] performAll_append split: sum.splits)
  with link rel show ?thesis
    by (simp add: relinked_newPrimaryKeysOf [OF rel] relinked_oldPrimaryKeysOf [OF rel])
qed

lemma columnOps_no_primaryKey: "filter isPrimaryKeyOp (concat (map columnOps columns)) = []"
  by (induction columns) (auto simp: columnOps_def split: option.splits)

lemma indexOps_no_primaryKey: "filter isPrimaryKeyOp (concat (map indexOps indexes)) = []"
  by (induction indexes) (auto simp: indexOps_def split: option.splits)

lemma primaryKeyOps_all: "filter isPrimaryKeyOp (primaryKeyOps old new) = primaryKeyOps old new"
  by (simp add: primaryKeyOps_def)

lemma columnOps_no_index: "list_all (\<lambda>op. \<not> isIndexOp op) (concat (map columnOps columns))"
  by (induction columns) (auto simp: columnOps_def split: option.splits)

lemma primaryKeyOps_no_index: "list_all (\<lambda>op. \<not> isIndexOp op) (primaryKeyOps old new)"
  by (simp add: primaryKeyOps_def)

text \<open>
  Claim C7.  For a parameter whose dereferenced pointers are allocated the compiler returns a
  plan, and the primary-key operations of the plan are these: there is one exactly when the
  old and the new primary-key names differ as sets (one is not a subset of the other); then
  the plan holds a drop if there was an old key, followed by an add if there is a new key;
  with both empty it holds none.
\<close>

theorem TableUpdateSql_primaryKey:
  assumes "allocated p"
  shows "\<exists>plan. TableUpdateSql planDialect ownerName tableName p = Inr plan \<and>
     ((\<exists>op \<in> set plan. isPrimaryKeyOp op) \<longleftrightarrow>
        (\<not> set (oldPrimaryKeysOf (ColumnList p)) \<subseteq> set (newPrimaryKeysOf (ColumnList p)) \<or>
         \<not> set (newPrimaryKeysOf (ColumnList p)) \<subseteq> set (oldPrimaryKeysOf (ColumnList p)))) \<and>
     filter isPrimaryKeyOp plan =
       (if \<not> set (oldPrimaryKeysOf (ColumnList p)) \<subseteq> set (newPrimaryKeysOf (ColumnList p)) \<or>
           \<not> set (newPrimaryKeysOf (ColumnList p)) \<subseteq> set (oldPrimaryKeysOf (ColumnList p))
        then (if oldPrimaryKeysOf (ColumnList p) \<noteq> [] then [PrimaryKeyDelete] else []) @
             (if newPrimaryKeysOf (ColumnList p) \<noteq> []
              then [PrimaryKeyAdd (newPrimaryKeysOf (ColumnList p))] else [])
        else []) \<and>
     (oldPrimaryKeysOf (ColumnList p) = [] \<and> newPrimaryKeysOf (ColumnList p) = [] \<longrightarrow>
        filter isPrimaryKeyOp plan = [])"
proof -
  let ?old = "oldPrimaryKeysOf (ColumnList p)" and ?new = "newPrimaryKeysOf (ColumnList p)"
  from TableUpdateSql_plan [OF assms, of ownerName tableName] obtain columns where
    plan: "TableUpdateSql planDialect ownerName tableName p =
      Inr (concat (map columnOps columns) @ primaryKeyOps ?old ?new @ concat (map indexOps (IndexList p)))"
    by blast
  define plan where "plan = concat (map columnOps columns) @ primaryKeyOps ?old ?new @
    concat (map indexOps (IndexList p))"
  have f: "filter isPrimaryKeyOp plan = primaryKeyOps ?old ?new"
    by (simp add: plan_def columnOps_no_primaryKey indexOps_no_primaryKey primaryKeyOps_all)
  have sym: "(\<not> set ?old \<subseteq> set ?new \<or> \<not> set ?new \<subseteq> set ?old) \<longleftrightarrow> set ?old \<noteq> set ?new"
    by auto
  have ex: "(\<exists>op \<in> set plan. isPrimaryKeyOp op) \<longleftrightarrow> filter isPrimaryKeyOp plan \<noteq> []"
    by (simp add: filter_empty_conv)
  have ne: "primaryKeyOps ?old ?new \<noteq> [] \<longleftrightarrow> set ?old \<noteq> set ?new"
    by (auto simp: primaryKeyOps_def)
  show ?thesis
  proof (intro exI [of _ plan] conjI)
    show "TableUpdateSql planDialect ownerName tableName p = Inr plan"
      using plan by (simp add: plan_def)
    show "(\<exists>op \<in> set plan. isPrimaryKeyOp op) \<longleftrightarrow>
        (\<not> set ?old \<subseteq> set ?new \<or> \<not> set ?new \<subseteq> set ?old)"
      unfolding ex f ne sym ..
    show "filter isPrimaryKeyOp plan =
       (if \<not> set ?old \<subseteq> set ?new \<or> \<not> set ?new \<subseteq> set ?old
        then (if ?old \<noteq> [] then [PrimaryKeyDelete] else []) @
             (if ?new \<noteq> [] then [PrimaryKeyAdd ?new] else [])
        else [])"
      unfolding f sym by (simp add: primaryKeyOps_def)
    show "?old = [] \<and> ?new = [] \<longrightarrow> filter isPrimaryKeyOp plan = []"
      unfolding f by (simp add: primaryKeyOps_def)
  qed
qed

theorem TableUpdateSql_primaryKey_witness:
  "allocated ordersParam \<and>
   (\<exists>plan. TableUpdateSql planDialect ''shop'' ''orders'' ordersParam = Inr plan \<and>
      filter isPrimaryKeyOp plan = [PrimaryKeyDelete, PrimaryKeyAdd [''id'', ''tenant_id'']]) \<and>
   allocated indexParam \<and>
   oldPrimaryKeysOf (ColumnList indexParam) = [] \<and> newPrimaryKeysOf (ColumnList indexParam) = [] \<and>
   (\<exists>plan. TableUpdateSql planDialect ''shop'' ''orders'' indexParam = Inr plan \<and>
      filter isPrimaryKeyOp plan = [])"
proof -
  have ia: "allocated indexParam" by code_simp
  have io: "oldPrimaryKeysOf (ColumnList indexParam) = []" by code_simp
  have inew: "newPrimaryKeysOf (ColumnList indexParam) = []" by code_simp
  from TableUpdateSql_primaryKey [OF ia, of "''shop''" "''orders''"] obtain iplan where
    "TableUpdateSql planDialect ''shop'' ''orders'' indexParam = Inr iplan"
    "oldPrimaryKeysOf (ColumnList indexParam) = [] \<and> newPrimaryKeysOf (ColumnList indexParam) = [] \<longrightarrow>
       filter isPrimaryKeyOp iplan = []"
    by blast
  with io inew have "TableUpdateSql planDialect ''shop'' ''orders'' indexParam = Inr iplan \<and>
      filter isPrimaryKeyOp iplan = []"
    by simp
  then have none: "\<exists>plan. TableUpdateSql planDialect ''shop'' ''orders'' indexParam = Inr plan \<and>
      filter isPrimaryKeyOp plan = []"
    by blast
  have a: "allocated ordersParam" by code_simp
  have old: "oldPrimaryKeysOf (ColumnList ordersParam) = [''id'']" by code_simp
  have new: "newPrimaryKeysOf (ColumnList ordersParam) = [''id'', ''tenant_id'']" by code_simp
  from TableUpdateSql_primaryKey [OF a, of "''shop''" "''orders''"] obtain plan where
    "TableUpdateSql planDialect ''shop'' ''orders'' ordersParam = Inr plan"
    "filter isPrimaryKeyOp plan =
       (if \<not> set (oldPrimaryKeysOf (ColumnList ordersParam)) \<subseteq> set (newPrimaryKeysOf (ColumnList ordersParam)) \<or>
           \<not> set (newPrimaryKeysOf (ColumnList ordersParam)) \<subseteq> set (oldPrimaryKeysOf (ColumnList ordersParam))
        then (if oldPrimaryKeysOf (ColumnList ordersParam) \<noteq> [] then [PrimaryKeyDelete] else []) @
             (if newPrimaryKeysOf (ColumnList ordersParam) \<noteq> []
              then [PrimaryKeyAdd (newPrimaryKeysOf (ColumnList ordersParam))] else [])
        else [])"
    by blast
  then have "TableUpdateSql planDialect ''shop'' ''orders'' ordersParam = Inr plan \<and>
      filter isPrimaryKeyOp plan = [PrimaryKeyDelete, PrimaryKeyAdd [''id'', ''tenant_id'']]"
    by (simp add: old new)
  with a ia io inew none show ?thesis by blast
qed

text \<open>
  Claim C2, as stated, fails when the table already has a primary key: for \<open>orders\<close> the new
  key \<open>id, tenant_id\<close> is a strict superset of the old key \<open>id\<close>, and the plan drops the old
  key before it adds the new one.
\<close>

theorem TableUpdateSql_superset_counterexample:
  "set (oldPrimaryKeysOf (ColumnList ordersParam)) \<subset> set (newPrimaryKeysOf (ColumnList ordersParam)) \<and>
   map_sum id (filter isPrimaryKeyOp) (TableUpdateSql planDialect ''shop'' ''orders'' ordersParam) =
     Inr [PrimaryKeyDelete, PrimaryKeyAdd [''id'', ''tenant_id'']]"
  by code_simp

text \<open>
  Claim C2, amended.  When the new primary-key names are a strict superset of the old ones,
  the plan holds exactly one primary-key add; it holds one primary-key drop, before the add,
  when there was an old key, and no drop when there was none.
\<close>

theorem TableUpdateSql_superset:
  assumes "allocated p"
    and "set (oldPrimaryKeysOf (ColumnList p)) \<subset> set (newPrimaryKeysOf (ColumnList p))"
  shows "\<exists>plan. TableUpdateSql planDialect ownerName tableName p = Inr plan \<and>
     length (filter isPrimaryKeyAdd plan) = 1 \<and>
     length (filter isPrimaryKeyDelete plan) = (if oldPrimaryKeysOf (ColumnList p) = [] then 0 else 1) \<and>
     filter isPrimaryKeyOp plan =
       (if oldPrimaryKeysOf (ColumnList p) = [] then [] else [PrimaryKeyDelete]) @
       [PrimaryKeyAdd (newPrimaryKeysOf (ColumnList p))]"
proof -
  let ?old = "oldPrimaryKeysOf (ColumnList p)" and ?new = "newPrimaryKeysOf (ColumnList p)"
  from TableUpdateSql_plan [OF assms(1), of ownerName tableName] obtain columns where
    plan: "TableUpdateSql planDialect ownerName tableName p =
      Inr (concat (map columnOps columns) @ primaryKeyOps ?old ?new @ concat (map indexOps (IndexList p)))"
    by blast
  define plan where "plan = concat (map columnOps columns) @ primaryKeyOps ?old ?new @
    concat (map indexOps (IndexList p))"
  from assms(2) have ne: "set ?old \<noteq> set ?new" and new: "?new \<noteq> []" by auto
  then have pk: "primaryKeyOps ?old ?new =
      (if ?old = [] then [] else [PrimaryKeyDelete]) @ [PrimaryKeyAdd ?new]"
    by (simp add: primaryKeyOps_def)
  have f: "filter isPrimaryKeyOp plan = primaryKeyOps ?old ?new"
    by (simp add: plan_def columnOps_no_primaryKey indexOps_no_primaryKey primaryKeyOps_all)
  have sub: "filter isPrimaryKeyAdd plan = filter isPrimaryKeyAdd (filter isPrimaryKeyOp plan)"
    "filter isPrimaryKeyDelete plan = filter isPrimaryKeyDelete (filter isPrimaryKeyOp plan)"
    by (simp_all, (rule filter_cong, simp, case_tac x, simp_all)+)
  show ?thesis
  proof (intro exI [of _ plan] conjI)
    show "TableUpdateSql planDialect ownerName tableName p = Inr plan"
      using plan by (simp add: plan_def)
    show "length (filter isPrimaryKeyAdd plan) = 1"
      unfolding sub f pk by simp
    show "length (filter isPrimaryKeyDelete plan) = (if ?old = [] then 0 else 1)"
      unfolding sub f pk by simp
    show "filter isPrimaryKeyOp plan = (if ?old = [] then [] else [PrimaryKeyDelete]) @ [PrimaryKeyAdd ?new]"
      unfolding f pk ..
  qed
qed

theorem TableUpdateSql_superset_witness:
  "allocated firstKeyParam \<and>
   set (oldPrimaryKeysOf (ColumnList firstKeyParam)) \<subset> set (newPrimaryKeysOf (ColumnList firstKeyParam)) \<and>
   (\<exists>plan. TableUpdateSql planDialect ''shop'' ''orders'' firstKeyParam = Inr plan \<and>
      filter isPrimaryKeyOp plan = [PrimaryKeyAdd [''id'']])"
proof -
  have a: "allocated firstKeyParam" by code_simp
  have s: "set (oldPrimaryKeysOf (ColumnList firstKeyParam)) \<subset> set (newPrimaryKeysOf (ColumnList firstKeyParam))"
    by code_simp
  have old: "oldPrimaryKeysOf (ColumnList firstKeyParam) = []" by code_simp
  have new: "newPrimaryKeysOf (ColumnList firstKeyParam) = [''id'']" by code_simp
  from TableUpdateSql_superset [OF a s, of "''shop''" "''orders''"] obtain plan where
    "TableUpdateSql planDialect ''shop'' ''orders'' firstKeyParam = Inr plan"
    "filter isPrimaryKeyOp plan =
       (if oldPrimaryKeysOf (ColumnList firstKeyParam) = [] then [] else [PrimaryKeyDelete]) @
       [PrimaryKeyAdd (newPrimaryKeysOf (ColumnList firstKeyParam))]"
    by blast
  then have "TableUpdateSql planDialect ''shop'' ''orders'' firstKeyParam = Inr plan \<and>
      filter isPrimaryKeyOp plan = [PrimaryKeyAdd [''id'']]"
    by (simp add: old new)
  with a s show ?thesis by blast
qed

lemma performAll_quiet:
  "list_all (\<lambda>op. perform dia ownerName tableName op = Inr []) ops \<Longrightarrow>
   performAll dia ownerName tableName ops sqlList = Inr sqlList"
  by (induction ops) (auto simp: emit_def)

lemma unchanged_allocated: "unchanged p \<Longrightarrow> allocated p"
  by (auto simp: unchanged_def allocated_def list_all_iff)

lemma unchanged_primaryKeys:
  "list_all (\<lambda>one. \<not> UpdateTableColumn.Deleted one \<and> ColumnModel one \<noteq> None \<and>
                  OldColumn one = ColumnModel one) columns \<Longrightarrow>
   oldPrimaryKeysOf columns = newPrimaryKeysOf columns"
  by (induction columns) (auto simp: PrimaryKeysOf_Nil newPrimaryKeysOf_Cons oldPrimaryKeysOf_Cons)

lemma unchanged_indexOps:
  "list_all (\<lambda>one. \<not> UpdateTableIndex.Deleted one \<and> IndexModel one \<noteq> None \<and>
                  OldIndex one = IndexModel one) indexes \<Longrightarrow>
   concat (map indexOps indexes) = []"
  by (induction indexes) (auto simp: indexOps_def indexChanged_def)

lemma unchanged_columnOps:
  assumes "list_all2 relinked columns columns'"
    and "list_all (\<lambda>one. \<not> UpdateTableColumn.Deleted one \<and> ColumnModel one \<noteq> None \<and>
                  OldColumn one = ColumnModel one) columns"
  shows "list_all isColumnUpdate (concat (map columnOps columns'))"
  using assms
proof (induction rule: list_all2_induct)
  case Nil
  then show ?case by simp
next
  case (Cons x xs y ys)
  from Cons.prems obtain column where x: "\<not> UpdateTableColumn.Deleted x" "ColumnModel x = Some column"
    "OldColumn x = Some column" by auto
  from Cons(1) x obtain column' where "ColumnModel y = Some column'" "OldColumn y = Some column"
    "\<not> UpdateTableColumn.Deleted y"
    by (auto simp: relinked_def split: option.splits)
  then have "columnOps y = [ColumnUpdate column column']"
    by (simp add: columnOps_def)
  with Cons show ?case by simp
qed

text \<open>
  Claim C4, as stated, fails: the compiler does not compare a kept column with its old
  definition.  For every column that is kept and has an old definition it calls the dialect's
  \<open>ColumnUpdateSql\<close>, so a dialect that answers each such call with a statement gets a
  statement for every unchanged column.
\<close>

theorem TableUpdateSql_unchanged_counterexample:
  "unchanged keepParam \<and> TableUpdateSql planDialect ''shop'' ''orders'' keepParam \<noteq> Inr []"
  by code_simp

text \<open>
  Claim C4, amended.  When every column and index is kept and equals its old definition, the
  compiler plans no add, no drop and no primary-key or index operation: its plan is one
  column update per column, of the old column to the new one as linked, and its result is
  what the dialect returns for these updates.  The result is the empty list when the
  dialect returns no statement for each of them.
\<close>

theorem TableUpdateSql_unchanged:
  assumes "unchanged p"
  shows "\<exists>columns. linkColumns None (ColumnList p) = Inr columns \<and>
     list_all isColumnUpdate (concat (map columnOps columns)) \<and>
     length (concat (map columnOps columns)) = length (ColumnList p) \<and>
     TableUpdateSql planDialect ownerName tableName p = Inr (concat (map columnOps columns)) \<and>
     TableUpdateSql dia ownerName tableName p =
       performAll dia ownerName tableName (concat (map columnOps columns)) [] \<and>
     (list_all (\<lambda>op. perform dia ownerName tableName op = Inr []) (concat (map columnOps columns)) \<longrightarrow>
        TableUpdateSql dia ownerName tableName p = Inr [])"
proof -
  from assms have cols: "list_all (\<lambda>one. \<not> UpdateTableColumn.Deleted one \<and> ColumnModel one \<noteq> None \<and>
                  OldColumn one = ColumnModel one) (ColumnList p)"
    and idx: "list_all (\<lambda>one. \<not> UpdateTableIndex.Deleted one \<and> IndexModel one \<noteq> None \<and>
                  OldIndex one = IndexModel one) (IndexList p)"
    by (simp_all add: unchanged_def)
  have al: "allocated p" using assms by (rule unchanged_allocated)
  have pk: "primaryKeyOps (oldPrimaryKeysOf (ColumnList p)) (newPrimaryKeysOf (ColumnList p)) = []"
    by (simp add: unchanged_primaryKeys [OF cols] primaryKeyOps_def)
  note ix = unchanged_indexOps [OF idx]
  from TableUpdateSql_perform [OF al, of dia ownerName tableName] obtain columns where
    link: "linkColumns None (ColumnList p) = Inr columns"
    and rel: "list_all2 relinked (ColumnList p) columns"
    and run: "TableUpdateSql dia ownerName tableName p =
       performAll dia ownerName tableName (concat (map columnOps columns)) []"
    by (auto simp: pk ix)
  from TableUpdateSql_plan [OF al, of ownerName tableName] link
  have plan: "TableUpdateSql planDialect ownerName tableName p = Inr (concat (map columnOps columns))"
    by (auto simp: pk ix)
  have upd: "list_all isColumnUpdate (concat (map columnOps columns))"
    using rel cols by (rule unchanged_columnOps)
  have len: "length (concat (map columnOps columns)) = length (ColumnList p)"
    using rel cols
  proof (induction rule: list_all2_induct)
    case Nil
    then show ?case by simp
  next
    case (Cons x xs y ys)
    from Cons.prems obtain column where x: "\<not> UpdateTableColumn.Deleted x" "ColumnModel x = Some column"
      "OldColumn x = Some column" by auto
    from Cons(1) x obtain column' where "ColumnModel y = Some column'" "OldColumn y = Some column"
      "\<not> UpdateTableColumn.Deleted y"
      by (auto simp: relinked_def split: option.splits)
    then have "columnOps y = [ColumnUpdate column column']"
      by (simp add: columnOps_def)
    with Cons show ?case by simp
  qed
  have quiet: "list_all (\<lambda>op. perform dia ownerName tableName op = Inr []) (concat (map columnOps columns)) \<longrightarrow>
        TableUpdateSql dia ownerName tableName p = Inr []"
    using run by (simp add: performAll_quiet)
  from link upd len plan run quiet show ?thesis by blast
qed

theorem TableUpdateSql_unchanged_witness:
  "unchanged keepParam \<and> TableUpdateSql textDialect ''shop'' ''orders'' keepParam = Inr []"
proof -
  have u: "unchanged keepParam" by code_simp
  from TableUpdateSql_unchanged [OF u, of "''shop''" "''orders''" textDialect] obtain columns where
    link: "linkColumns None (ColumnList keepParam) = Inr columns"
    and quiet: "list_all (\<lambda>op. perform textDialect ''shop'' ''orders'' op = Inr [])
        (concat (map columnOps columns)) \<longrightarrow>
      TableUpdateSql textDialect ''shop'' ''orders'' keepParam = Inr []"
    by blast
  have "list_all (\<lambda>op. perform textDialect ''shop'' ''orders'' op = Inr [])
      (concat (map columnOps (case linkColumns None (ColumnList keepParam) of Inr columns \<Rightarrow> columns | Inl p \<Rightarrow> [])))"
    by code_simp
  with link have "list_all (\<lambda>op. perform textDialect ''shop'' ''orders'' op = Inr [])
      (concat (map columnOps columns))"
    by simp
  with quiet have "TableUpdateSql textDialect ''shop'' ''orders'' keepParam = Inr []" by blast
  with u show ?thesis by blast
qed

text \<open>
  Claim C8, as stated, fails for an entry that is marked deleted and has no old index: the
  claim has a nil old index emit an add, the compiler emits nothing for it.
\<close>

theorem TableUpdateSql_index_counterexample:
  "map OldIndex (IndexList ghostIndexParam) = [None] \<and>
   TableUpdateSql planDialect ''shop'' ''orders'' ghostIndexParam = Inr []"
  by code_simp

text \<open>
  Claim C8, amended.  The plan ends with the operations of the index entries, in input order,
  after every column and primary-key operation, and each entry contributes \<open>indexOps\<close>: a
  deleted entry a drop of its old index when it has one and nothing otherwise; a kept entry
  without an old index an add; a kept entry with an old index a drop of the old index
  immediately followed by an add of the new one when name, type, comment or the joined column
  names differ, and nothing when none does.
\<close>

theorem TableUpdateSql_index:
  assumes "allocated p"
  shows "\<exists>before. TableUpdateSql planDialect ownerName tableName p =
            Inr (before @ concat (map indexOps (IndexList p))) \<and>
          list_all (\<lambda>op. \<not> isIndexOp op) before"
proof -
  from TableUpdateSql_plan [OF assms, of ownerName tableName] obtain columns where
    plan: "TableUpdateSql planDialect ownerName tableName p =
      Inr (concat (map columnOps columns) @
           primaryKeyOps (oldPrimaryKeysOf (ColumnList p)) (newPrimaryKeysOf (ColumnList p)) @
           concat (map indexOps (IndexList p)))"
    by blast
  define before where "before = concat (map columnOps columns) @
           primaryKeyOps (oldPrimaryKeysOf (ColumnList p)) (newPrimaryKeysOf (ColumnList p))"
  have "list_all (\<lambda>op. \<not> isIndexOp op) before"
    unfolding before_def using columnOps_no_index [of columns]
      primaryKeyOps_no_index [of "oldPrimaryKeysOf (ColumnList p)" "newPrimaryKeysOf (ColumnList p)"]
    by simp
  moreover have "TableUpdateSql planDialect ownerName tableName p =
            Inr (before @ concat (map indexOps (IndexList p)))"
    using plan by (simp add: before_def)
  ultimately show ?thesis by blast
qed

theorem TableUpdateSql_index_witness:
  "allocated indexParam \<and>
   TableUpdateSql planDialect ''shop'' ''orders'' indexParam =
     Inr [IndexDelete ''idx_a'', IndexAdd (Some (plainIndex ''idx_b'' [''b''])),
          IndexDelete ''idx_cd'', IndexAdd (Some (plainIndex ''idx_cd'' [''d'', ''c'']))]"
proof -
  have a: "allocated indexParam" by code_simp
  have ops: "concat (map indexOps (IndexList indexParam)) =
     [IndexDelete ''idx_a'', IndexAdd (Some (plainIndex ''idx_b'' [''b''])),
      IndexDelete ''idx_cd'', IndexAdd (Some (plainIndex ''idx_cd'' [''d'', ''c'']))]"
    by code_simp
  have all: "list_all isIndexOp (concat (map indexOps (IndexList indexParam)))"
    by code_simp
  have ev: "map_sum id (filter (\<lambda>op. \<not> isIndexOp op))
      (TableUpdateSql planDialect ''shop'' ''orders'' indexParam) = Inr []"
    by code_simp
  from TableUpdateSql_index [OF a, of "''shop''" "''orders''"] obtain before where
    r: "TableUpdateSql planDialect ''shop'' ''orders'' indexParam =
            Inr (before @ concat (map indexOps (IndexList indexParam)))"
    and b: "list_all (\<lambda>op. \<not> isIndexOp op) before"
    by blast
  from b have fb: "filter (\<lambda>op. \<not> isIndexOp op) before = before"
    by (simp add: list_all_iff)
  from all have fi: "filter (\<lambda>op. \<not> isIndexOp op) (concat (map indexOps (IndexList indexParam))) = []"
    by (simp add: list_all_iff filter_empty_conv)
  from ev r fb fi have "before = []"
    by simp
  with r ops a show ?thesis by simp
qed

section \<open>Properties of the row loop of \<open>TableData\<close>\<close>

lemma ContainsString_neg: "ContainsString xs v < 0 \<longleftrightarrow> v \<notin> set xs"
  by (induction xs) (auto simp: Let_def)

lemma itemStep_other: "k \<noteq> name \<Longrightarrow> itemStep rt names name v item k = item k"
  by (simp add: itemStep_def)

text \<open>A round of the loop changes its own key only, so the order of the visit does not
  matter: every key ends as its own round leaves it.\<close>

lemma rangeItem_key:
  assumes "distinct (map fst entries)"
  shows "rangeItem rt names entries item k =
     (case map_of entries k of
        None \<Rightarrow> item k
      | Some v \<Rightarrow> itemStep rt names k v item k)"
  using assms
proof (induction entries arbitrary: item)
  case Nil
  then show ?case by simp
next
  case (Cons e rest)
  obtain name v where e: "e = (name, v)" by (cases e)
  from Cons.prems e have d: "distinct (map fst rest)" and fresh: "map_of rest name = None"
    by (auto simp: map_of_eq_None_iff)
  show ?case
  proof (cases "k = name")
    case True
    with fresh e Cons.IH [OF d, of "itemStep rt names name v item"] show ?thesis by simp
  next
    case False
    have "itemStep rt names k w (itemStep rt names name v item) k = itemStep rt names k w item k" for w
      using False by (simp add: itemStep_def)
    with False e Cons.IH [OF d, of "itemStep rt names name v item"] show ?thesis
      by (simp add: itemStep_other split: option.splits)
  qed
qed

text \<open>
  Claim C6, as stated, fails for a key whose value is nil: the loop passes over a nil value
  before it looks at the name, so the key stays in the row though no requested column has
  its name.
\<close>

theorem TableData_nil_counterexample:
  "ToLower exampleRuntime ''ghost'' \<notin>
     set (map (\<lambda>column. ToLower exampleRuntime (ColumnName column)) exampleColumns) \<and>
   map_of exampleRow ''ghost'' = Some NilValue \<and>
   (TableData_dataList exampleRuntime exampleColumns [exampleRow] ! 0) ''ghost'' = Some NilValue"
  by code_simp

text \<open>
  Claim C6, amended.  In every row that \<open>TableData\<close> returns: no key is added; a key whose
  value is nil is kept, with its nil value, whatever its name; a key with another value is
  removed when its lower-case name is not among the lower-case names of the requested
  columns, and is otherwise kept with its value normalized: a zero time becomes nil, another
  time its timestamp, a floating-point number its \<open>%f\<close> text, a 64-bit integer its decimal
  text.
\<close>

theorem TableData_row:
  assumes "i < length listMap" and "distinct (map fst (listMap ! i))"
  shows
    "(map_of (listMap ! i) name = None \<longrightarrow>
        (TableData_dataList rt columnList listMap ! i) name = None) \<and>
     (map_of (listMap ! i) name = Some NilValue \<longrightarrow>
        (TableData_dataList rt columnList listMap ! i) name = Some NilValue) \<and>
     (\<forall>v. map_of (listMap ! i) name = Some v \<and> v \<noteq> NilValue \<and>
          ToLower rt name \<notin> set (map (\<lambda>column. ToLower rt (ColumnName column)) columnList) \<longrightarrow>
        (TableData_dataList rt columnList listMap ! i) name = None) \<and>
     (\<forall>v. map_of (listMap ! i) name = Some v \<and> v \<noteq> NilValue \<and>
          ToLower rt name \<in> set (map (\<lambda>column. ToLower rt (ColumnName column)) columnList) \<longrightarrow>
        (TableData_dataList rt columnList listMap ! i) name = Some (normalizeValue rt v)) \<and>
     (\<forall>tV. normalizeValue rt (Time tV) = (if IsZero rt tV then NilValue else Int64 (GetTimeTime rt tV))) \<and>
     (\<forall>tV. normalizeValue rt (Float64 tV) = String (Sprintf_f rt 64 tV)) \<and>
     (\<forall>tV. normalizeValue rt (Float32 tV) = String (Sprintf_f rt 32 tV)) \<and>
     (\<forall>tV. normalizeValue rt (Int64 tV) = String (Sprintf_d tV))"
proof -
  define names where "names = map (\<lambda>column. ToLower rt (ColumnName column)) columnList"
  have row: "(TableData_dataList rt columnList listMap ! i) name =
     (case map_of (listMap ! i) name of
        None \<Rightarrow> None
      | Some v \<Rightarrow> itemStep rt names name v (map_of (listMap ! i)) name)"
    using assms(1) rangeItem_key [OF assms(2), of rt names "map_of (listMap ! i)" name]
    by (simp add: TableData_dataList_def names_def split: option.splits)
  show ?thesis
    unfolding row names_def [symmetric]
    by (auto simp: itemStep_def ContainsString_neg)
qed

theorem TableData_row_witness:
  "0 < length [exampleRow] \<and> distinct (map fst ([exampleRow] ! 0)) \<and>
   map (TableData_dataList exampleRuntime exampleColumns [exampleRow] ! 0)
     [''none'', ''note'', ''RN'', ''ID'', ''created'', ''deleted'', ''price''] =
     [None, Some NilValue, None, Some (String ''42''), Some (Int64 1700000000000), Some NilValue,
      Some (String ''9.000000'')]"
proof -
  have d: "distinct (map fst ([exampleRow] ! 0))" by code_simp
  have l: "0 < length [exampleRow]" by simp
  note t = TableData_row [OF l d, of _ exampleRuntime exampleColumns]
  have names: "map (\<lambda>column. ToLower exampleRuntime (ColumnName column)) exampleColumns =
      [''id'', ''created'', ''deleted'', ''price'', ''note'']" by code_simp
  have low: "map (ToLower exampleRuntime) [''RN'', ''ID'', ''created'', ''deleted'', ''price''] =
      [''rn'', ''id'', ''created'', ''deleted'', ''price'']" by code_simp
  have e: "map (map_of ([exampleRow] ! 0)) [''none'', ''note'', ''RN'', ''ID'', ''created'', ''deleted'', ''price''] =
      [None, Some NilValue, Some (Int64 7), Some (Int64 42), Some (Time 1700000000000),
       Some (Time (- 62135596800000)), Some (Float64 9)]" by code_simp
  have z: "IsZero exampleRuntime (- 62135596800000)" "\<not> IsZero exampleRuntime 1700000000000"
    "GetTimeTime exampleRuntime 1700000000000 = 1700000000000"
    "Sprintf_f exampleRuntime 64 9 = ''9.000000''"
    "Sprintf_d 42 = ''42''"
    by code_simp+
  have "(TableData_dataList exampleRuntime exampleColumns [exampleRow] ! 0) ''none'' = None"
    using t [of "''none''"] e by simp
  moreover have "(TableData_dataList exampleRuntime exampleColumns [exampleRow] ! 0) ''note'' = Some NilValue"
    using t [of "''note''"] e by simp
  moreover have "(TableData_dataList exampleRuntime exampleColumns [exampleRow] ! 0) ''RN'' = None"
    using t [of "''RN''"] e names low by simp
  moreover have "(TableData_dataList exampleRuntime exampleColumns [exampleRow] ! 0) ''ID'' = Some (String ''42'')"
    using t [of "''ID''"] e names low z by simp
  moreover have "(TableData_dataList exampleRuntime exampleColumns [exampleRow] ! 0) ''created'' = Some (Int64 1700000000000)"
    using t [of "''created''"] e names low z by simp
  moreover have "(TableData_dataList exampleRuntime exampleColumns [exampleRow] ! 0) ''deleted'' = Some NilValue"
    using t [of "''deleted''"] e names low z by simp
  moreover have "(TableData_dataList exampleRuntime exampleColumns [exampleRow] ! 0) ''price'' = Some (String ''9.000000'')"
    using t [of "''price''"] e names low z by simp
  ultimately show ?thesis using d by simp
qed

section \<open>Properties of the import task\<close>

lemma frame_refl: "frame task task"
  by (simp add: frame_def)

lemma frame_fields:
  assumes "frame task task'"
  shows "IsStop task' = IsStop task" "Error task' = Error task" "StartTime task' = StartTime task"
    "Database task' = Database task" "Table task' = Table task"
    "ImportTask.ColumnList task' = ImportTask.ColumnList task" "BatchNumber task' = BatchNumber task"
    "ImportType task' = ImportType task" "IsEnd task' = IsEnd task"
proof -
  let ?u = "task\<lparr>StrategyDataList := StrategyDataList task', DataCount := DataCount task',
                  ReadyDataCount := ReadyDataCount task', SuccessCount := SuccessCount task',
                  ErrorCount := ErrorCount task'\<rparr>"
  have eq: "task' = ?u" using assms by (simp add: frame_def)
  have u: "IsStop ?u = IsStop task" "Error ?u = Error task" "StartTime ?u = StartTime task"
    "Database ?u = Database task" "Table ?u = Table task"
    "ImportTask.ColumnList ?u = ImportTask.ColumnList task" "BatchNumber ?u = BatchNumber task"
    "ImportType ?u = ImportType task" "IsEnd ?u = IsEnd task"
    by simp_all
  show "IsStop task' = IsStop task" by (subst eq) (rule u)
  show "Error task' = Error task" by (subst eq) (rule u)
  show "StartTime task' = StartTime task" by (subst eq) (rule u)
  show "Database task' = Database task" by (subst eq) (rule u)
  show "Table task' = Table task" by (subst eq) (rule u)
  show "ImportTask.ColumnList task' = ImportTask.ColumnList task" by (subst eq) (rule u)
  show "BatchNumber task' = BatchNumber task" by (subst eq) (rule u)
  show "ImportType task' = ImportType task" by (subst eq) (rule u)
  show "IsEnd task' = IsEnd task" by (subst eq) (rule u)
qed

lemma frame_trans:
  assumes "frame task task'" and "frame task' task''"
  shows "frame task task''"
proof -
  let ?u = "task\<lparr>StrategyDataList := StrategyDataList task', DataCount := DataCount task',
                  ReadyDataCount := ReadyDataCount task', SuccessCount := SuccessCount task',
                  ErrorCount := ErrorCount task'\<rparr>"
  have eq: "task' = ?u" using assms(1) by (simp add: frame_def)
  have "task'' = task'\<lparr>StrategyDataList := StrategyDataList task'', DataCount := DataCount task'',
                  ReadyDataCount := ReadyDataCount task'', SuccessCount := SuccessCount task'',
                  ErrorCount := ErrorCount task''\<rparr>"
    using assms(2) by (simp add: frame_def)
  also have "\<dots> = ?u\<lparr>StrategyDataList := StrategyDataList task'', DataCount := DataCount task'',
                  ReadyDataCount := ReadyDataCount task'', SuccessCount := SuccessCount task'',
                  ErrorCount := ErrorCount task''\<rparr>"
    by (subst eq) (rule refl)
  also have "\<dots> = task\<lparr>StrategyDataList := StrategyDataList task'', DataCount := DataCount task'',
                  ReadyDataCount := ReadyDataCount task'', SuccessCount := SuccessCount task'',
                  ErrorCount := ErrorCount task''\<rparr>"
    by simp
  finally show ?thesis by (simp add: frame_def)
qed

lemma frame_counter:
  "frame task (task\<lparr>ReadyDataCount := a\<rparr>)" "frame task (task\<lparr>SuccessCount := b\<rparr>)"
  "frame task (task\<lparr>ErrorCount := c\<rparr>)"
  "frame task (task\<lparr>StrategyDataList := l, DataCount := d\<rparr>)"
  by (simp_all add: frame_def)

lemma importBatch_frame:
  "importBatch svc database table columnList dataList (task, db) = (r, task', db') \<Longrightarrow> frame task task'"
  by (auto simp: importBatch_def frame_counter frame_refl split: prod.splits option.splits fault.splits)

lemma doStrategyData_rows_frame:
  "doStrategyData_rows eng svc database table columnList importData batchNumber n i vm dataList (task, db)
     = (out, task', db') \<Longrightarrow> frame task task'"
proof (induction n arbitrary: i vm dataList task db)
  case 0
  then show ?case by (simp add: frame_refl)
next
  case (Suc n)
  show ?case
  proof (cases "vm_Set eng vm ''_$index'' (GoInt i)")
    case (Inl f)
    with Suc.prems show ?thesis by (simp add: frame_refl)
  next
    case (Inr vm1)
    show ?thesis
    proof (cases "doStrategyData_columns eng (IsStop task) importData columnList vm1 Map.empty")
      case (Inl r)
      with Suc.prems Inr show ?thesis by (simp add: frame_refl)
    next
      case cols: (Inr p)
      obtain data vm2 where p: "p = (data, vm2)" by (cases p)
      define task1 where "task1 = task\<lparr>ReadyDataCount := ReadyDataCount task + 1\<rparr>"
      have f1: "frame task task1" by (simp add: task1_def frame_counter)
      show ?thesis
      proof (cases "int (length (dataList @ [data])) \<ge> batchNumber")
        case False
        with Suc.prems Inr cols p
        have "doStrategyData_rows eng svc database table columnList importData batchNumber n (i + 1)
            vm2 (dataList @ [data]) (task1, db) = (out, task', db')"
          by (simp add: task1_def Let_def)
        from Suc.IH [OF this] f1 show ?thesis by (rule frame_trans [rotated])
      next
        case True
        show ?thesis
        proof (cases "IsStop task1")
          case stop: True
          with Suc.prems Inr cols p True have "task' = task1"
            by (simp add: task1_def Let_def)
          with f1 show ?thesis by simp
        next
          case go: False
          obtain r2 task2 db2 where b: "importBatch svc database table columnList (dataList @ [data]) (task1, db)
             = (r2, task2, db2)" by (cases "importBatch svc database table columnList (dataList @ [data]) (task1, db)") auto
          have f2: "frame task task2"
            using f1 importBatch_frame [OF b] by (rule frame_trans)
          show ?thesis
          proof (cases r2)
            case (Some f)
            with Suc.prems Inr cols p True go b have "task' = task2"
              by (simp add: task1_def [symmetric] Let_def)
            with f2 show ?thesis by simp
          next
            case None
            with Suc.prems Inr cols p True go b
            have "doStrategyData_rows eng svc database table columnList importData batchNumber n (i + 1)
                vm2 [] (task2, db2) = (out, task', db')"
              by (simp add: task1_def [symmetric] Let_def)
            from Suc.IH [OF this] f2 show ?thesis by (rule frame_trans [rotated])
          qed
        qed
      qed
    qed
  qed
qed

lemma doStrategyData_frame:
  assumes "doStrategyData rt eng svc database table columnList importData (task, db) = (r, task', db')"
  shows "frame task task'"
proof (cases "importData ''_$importCount''")
  case None
  with assms show ?thesis by (simp add: doStrategyData_def frame_refl)
next
  case (Some v)
  show ?thesis
  proof (cases "\<exists>importCount. v = GoInt importCount \<and> 0 < importCount \<and> \<not> IsStop task")
    case False
    with assms Some show ?thesis
      by (cases v) (auto simp: doStrategyData_def frame_refl split: if_splits)
  next
    case True
    then obtain importCount where v: "v = GoInt importCount" "0 < importCount" "\<not> IsStop task"
      by blast
    define batchNumber where "batchNumber = (if BatchNumber task \<le> 0 then 10 else BatchNumber task)"
    show ?thesis
    proof (cases "setContext eng (javascript_GetContext eng) (goja_New eng)")
      case (Inl f)
      with assms Some v show ?thesis by (simp add: doStrategyData_def frame_refl)
    next
      case (Inr vm)
      obtain out task1 db1 where rows: "doStrategyData_rows eng svc database table columnList importData
          batchNumber (nat importCount) 0 vm [] (task, db) = (out, task1, db1)"
        by (cases "doStrategyData_rows eng svc database table columnList importData
          batchNumber (nat importCount) 0 vm [] (task, db)") auto
      note f1 = doStrategyData_rows_frame [OF rows]
      show ?thesis
      proof (cases out)
        case (Inl r')
        with assms Some v Inr rows have "task' = task1"
          by (simp add: doStrategyData_def batchNumber_def [symmetric])
        with f1 show ?thesis by simp
      next
        case out: (Inr dataList)
        with assms Some v Inr rows
        have "importBatch svc database table columnList dataList (task1, db1) = (r, task', db')"
          by (simp add: doStrategyData_def batchNumber_def [symmetric])
        from f1 importBatch_frame [OF this] show ?thesis by (rule frame_trans)
      qed
    qed
  qed
qed

lemma doStrategy_run_frame:
  "doStrategy_run rt eng svc strategyDataList (task, db) = (r, task', db') \<Longrightarrow> frame task task'"
proof (induction strategyDataList arbitrary: task db)
  case Nil
  then show ?case by (simp add: frame_refl)
next
  case (Cons importData rest)
  show ?case
  proof (cases "IsStop task")
    case True
    with Cons.prems show ?thesis by (simp add: frame_refl)
  next
    case False
    obtain r1 task1 db1 where d: "doStrategyData rt eng svc (Database task) (Table task)
        (ImportTask.ColumnList task) importData (task, db) = (r1, task1, db1)"
      by (cases "doStrategyData rt eng svc (Database task) (Table task)
        (ImportTask.ColumnList task) importData (task, db)") auto
    note f1 = doStrategyData_frame [OF d]
    show ?thesis
    proof (cases r1)
      case (Some f)
      with Cons.prems False d have "task' = task1" by simp
      with f1 show ?thesis by simp
    next
      case None
      with Cons.prems False d have "doStrategy_run rt eng svc rest (task1, db1) = (r, task', db')"
        by simp
      from f1 Cons.IH [OF this] show ?thesis by (rule frame_trans)
    qed
  qed
qed

lemma doStrategy_frame:
  assumes "doStrategy rt eng svc (task, db) = (r, task', db')"
  shows "frame task task'"
proof -
  obtain r0 l d where c: "doStrategy_count rt (StrategyDataList task) (DataCount task) = (r0, l, d)"
    by (cases "doStrategy_count rt (StrategyDataList task) (DataCount task)") auto
  define task1 where "task1 = task\<lparr>StrategyDataList := l, DataCount := d\<rparr>"
  have f1: "frame task task1" by (simp add: task1_def frame_counter)
  show ?thesis
  proof (cases r0)
    case (Some f)
    with assms c have "task' = task1" by (simp add: doStrategy_def task1_def)
    with f1 show ?thesis by simp
  next
    case None
    with assms c have "doStrategy_run rt eng svc l (task1, db) = (r, task', db')"
      by (simp add: doStrategy_def task1_def)
    from f1 doStrategy_run_frame [OF this] show ?thesis by (rule frame_trans)
  qed
qed

text \<open>The bookkeeping of \<open>Start\<close>, and what becomes of a fault of the worker.\<close>

lemma Start_result:
  assumes "(if ImportType task = ''strategy'' then doStrategy rt eng svc (task\<lparr>StartTime := now1\<rparr>, db)
            else (None, task\<lparr>StartTime := now1\<rparr>, db)) = (r, task1, db1)"
  shows "Start rt eng svc now1 now2 (task, db) =
     ((case r of Some f \<Rightarrow> task1\<lparr>Error := message f\<rparr> | None \<Rightarrow> task1)
        \<lparr>EndTime := now2, IsEnd := True, UseTime := GetTimeTime rt now2 - GetTimeTime rt now1\<rparr>, db1)"
proof -
  have f: "frame (task\<lparr>StartTime := now1\<rparr>) task1"
  proof (cases "ImportType task = ''strategy''")
    case True
    with assms show ?thesis by (auto dest: doStrategy_frame)
  next
    case False
    with assms show ?thesis by (auto simp: frame_refl)
  qed
  have st: "StartTime task1 = now1"
    using frame_fields(3) [OF f] by simp
  show ?thesis
    using assms st by (cases r) (simp_all add: Start_def Let_def)
qed

text \<open>
  Claim C9.  Whatever the worker does, \<open>Start\<close> ends with the bookkeeping done: \<open>IsEnd\<close> is
  true, \<open>EndTime\<close> is the second reading of the clock and \<open>UseTime\<close> the difference of the
  two timestamps.  When the worker panics (by itself, or because \<open>Start\<close> raises the error
  that \<open>doStrategy\<close> returned), \<open>Error\<close> is the text of the panic value; when it does not,
  \<open>Error\<close> is as it was.  So a task that has ended has \<open>IsEnd\<close> true with an empty \<open>Error\<close>,
  or a non-empty \<open>Error\<close>.
\<close>

theorem Start_recovers:
  "IsEnd (fst (Start rt eng svc now1 now2 (task, db))) \<and>
   EndTime (fst (Start rt eng svc now1 now2 (task, db))) = now2 \<and>
   UseTime (fst (Start rt eng svc now1 now2 (task, db))) = GetTimeTime rt now2 - GetTimeTime rt now1 \<and>
   (\<forall>f. ImportType task = ''strategy'' \<and>
        fst (doStrategy rt eng svc (task\<lparr>StartTime := now1\<rparr>, db)) = Some f \<longrightarrow>
        Error (fst (Start rt eng svc now1 now2 (task, db))) = message f) \<and>
   (ImportType task \<noteq> ''strategy'' \<or>
      fst (doStrategy rt eng svc (task\<lparr>StartTime := now1\<rparr>, db)) = None \<longrightarrow>
        Error (fst (Start rt eng svc now1 now2 (task, db))) = Error task) \<and>
   (IsEnd (fst (Start rt eng svc now1 now2 (task, db))) \<and>
      Error (fst (Start rt eng svc now1 now2 (task, db))) = [] \<or>
    Error (fst (Start rt eng svc now1 now2 (task, db))) \<noteq> [])"
proof -
  obtain r task1 db1 where w: "(if ImportType task = ''strategy''
      then doStrategy rt eng svc (task\<lparr>StartTime := now1\<rparr>, db)
      else (None, task\<lparr>StartTime := now1\<rparr>, db)) = (r, task1, db1)"
    by (metis prod_cases3)
  note s = Start_result [OF w, of now2]
  have f: "frame (task\<lparr>StartTime := now1\<rparr>) task1"
  proof (cases "ImportType task = ''strategy''")
    case True
    with w show ?thesis by (auto dest: doStrategy_frame)
  next
    case False
    with w show ?thesis by (auto simp: frame_refl)
  qed
  have e1: "Error task1 = Error task"
    using frame_fields(2) [OF f] by simp
  have a: "IsEnd (fst (Start rt eng svc now1 now2 (task, db)))"
    and b: "EndTime (fst (Start rt eng svc now1 now2 (task, db))) = now2"
    and c: "UseTime (fst (Start rt eng svc now1 now2 (task, db))) = GetTimeTime rt now2 - GetTimeTime rt now1"
    by (simp_all add: s)
  have d: "Error (fst (Start rt eng svc now1 now2 (task, db))) = message f"
    if "ImportType task = ''strategy'' \<and> fst (doStrategy rt eng svc (task\<lparr>StartTime := now1\<rparr>, db)) = Some f" for f
    using that w by (simp add: s)
  have e: "Error (fst (Start rt eng svc now1 now2 (task, db))) = Error task"
    if "ImportType task \<noteq> ''strategy'' \<or> fst (doStrategy rt eng svc (task\<lparr>StartTime := now1\<rparr>, db)) = None"
    using that w e1 by (auto simp: s split: if_splits)
  from a b c d e show ?thesis by blast
qed

theorem Start_recovers_witness:
  "ImportType badCountTask = ''strategy'' \<and>
   fst (doStrategy exampleRuntime exampleEngine logService (badCountTask\<lparr>StartTime := 100\<rparr>, [])) =
     Some (Pan ''interface conversion: interface {} is string, not float64'') \<and>
   IsEnd (fst (Start exampleRuntime exampleEngine logService 100 250 (badCountTask, []))) \<and>
   UseTime (fst (Start exampleRuntime exampleEngine logService 100 250 (badCountTask, []))) = 150 \<and>
   Error (fst (Start exampleRuntime exampleEngine logService 100 250 (badCountTask, []))) =
     ''interface conversion: interface {} is string, not float64'' \<and>
   fst (doStrategy exampleRuntime exampleEngine logService (derivedTask\<lparr>StartTime := 100\<rparr>, [])) = None \<and>
   IsEnd (fst (Start exampleRuntime exampleEngine logService 100 250 (derivedTask, []))) \<and>
   Error (fst (Start exampleRuntime exampleEngine logService 100 250 (derivedTask, []))) = []"
proof -
  have n: "fst (doStrategy exampleRuntime exampleEngine logService (derivedTask\<lparr>StartTime := 100\<rparr>, [])) = None"
    by code_simp
  have e: "Error derivedTask = []" by code_simp
  from Start_recovers [of exampleRuntime exampleEngine logService 100 250 derivedTask "[]"] n e
  have ok: "IsEnd (fst (Start exampleRuntime exampleEngine logService 100 250 (derivedTask, []))) \<and>
      Error (fst (Start exampleRuntime exampleEngine logService 100 250 (derivedTask, []))) = []"
    by simp
  have t: "ImportType badCountTask = ''strategy''" by code_simp
  have p: "fst (doStrategy exampleRuntime exampleEngine logService (badCountTask\<lparr>StartTime := 100\<rparr>, [])) =
     Some (Pan ''interface conversion: interface {} is string, not float64'')" by code_simp
  have g: "GetTimeTime exampleRuntime 250 - GetTimeTime exampleRuntime 100 = 150" by code_simp
  from Start_recovers [of exampleRuntime exampleEngine logService 100 250 badCountTask "[]"] t p g n ok
  show ?thesis by simp
qed

text \<open>A task whose stop flag is set runs no strategy row and leaves the counters as they
  are; the flag itself is never changed by a run.\<close>

lemma stopped_task_runs_nothing:
  "IsStop task \<Longrightarrow> doStrategy_run rt eng svc strategyDataList (task, db) = (None, task, db)"
  by (cases strategyDataList) simp_all

lemma run_keeps_IsStop:
  "IsStop (fst (Start rt eng svc now1 now2 (task, db))) = IsStop task"
proof -
  obtain r task1 db1 where w: "(if ImportType task = ''strategy''
      then doStrategy rt eng svc (task\<lparr>StartTime := now1\<rparr>, db)
      else (None, task\<lparr>StartTime := now1\<rparr>, db)) = (r, task1, db1)"
    by (metis prod_cases3)
  have f: "frame (task\<lparr>StartTime := now1\<rparr>) task1"
  proof (cases "ImportType task = ''strategy''")
    case True
    with w show ?thesis by (auto dest: doStrategy_frame)
  next
    case False
    with w show ?thesis by (auto simp: frame_refl)
  qed
  have "IsStop task1 = IsStop task"
    using frame_fields(1) [OF f] by simp
  then show ?thesis
    by (cases r) (simp_all add: Start_result [OF w])
qed

text \<open>
  Claim C1 asks that \<open>StopImportTask\<close> sets the stop flag and does no import work.  It calls
  \<open>task.Start()\<close> where \<open>task.Stop()\<close> was meant: for the registered task \<open>derivedTask\<close>,
  which has not run yet, the call leaves \<open>IsStop\<close> false and runs the whole import, writing
  both batches of the three rows.
\<close>

theorem StopImportTask_runs_import:
  "map_option IsStop (GetImportTask ''task-1'' (StartImportTask derivedTask Map.empty)) = Some False \<and>
   map_option IsStop (fst (StopImportTask exampleRuntime exampleEngine logService 100 250 ''task-1''
      (StartImportTask derivedTask Map.empty, []))) = Some False \<and>
   map_option ReadyDataCount (fst (StopImportTask exampleRuntime exampleEngine logService 100 250 ''task-1''
      (StartImportTask derivedTask Map.empty, []))) = Some 3 \<and>
   map_option IsEnd (fst (StopImportTask exampleRuntime exampleEngine logService 100 250 ''task-1''
      (StartImportTask derivedTask Map.empty, []))) = Some True \<and>
   map length (snd (snd (StopImportTask exampleRuntime exampleEngine logService 100 250 ''task-1''
      (StartImportTask derivedTask Map.empty, [])))) = [2, 1] \<and>
   IsStop (Stop derivedTask)"
  by code_simp









end
